theory Spec2Isabelle
  imports Main "HOL-Library.Multiset"
begin

section \<open>The insertion-point rewriter (src/unnamed/part_000, imported as ./injection)\<close>

subsection \<open>Syntax trees and matchers\<close>

text \<open>
  The parser (@babel/parser) is an external library, so the tree it returns is data here.
  A node carries what the matchers and the rewriter read: its \<open>type\<close>, its \<open>name\<close>
  (of an Identifier; empty otherwise), its \<open>start\<close> and \<open>end\<close> offsets, and its
  object-valued properties in the order \<open>Object.values\<close> enumerates them. A JavaScript
  array of nodes is itself an object without a \<open>type\<close>: a node of empty type whose
  properties are its elements. Properties holding a primitive (a string, a number, null)
  are left out: \<open>traverseAst\<close> returns at once on them.
\<close>

datatype node =
  Node (ntype: string) (nname: string) (nstart: nat) (nend: nat) (nprops: "(string \<times> node) list")

type_synonym NodeMatcher = "node \<Rightarrow> node option"
type_synonym NodeRewriter = "string \<Rightarrow> string"

text \<open>
  \<open>traverseAst\<close>: first the node itself if the matcher returns something truthy (the
  value the matcher returned is what is yielded), then the matches of every property
  value, depth first, in property order.
\<close>

fun traverseAst :: "node \<Rightarrow> NodeMatcher \<Rightarrow> node list" where
  "traverseAst (Node t n s e ps) matcher =
     (case matcher (Node t n s e ps) of Some m \<Rightarrow> [m] | None \<Rightarrow> [])
     @ concat (map (\<lambda>kv. traverseAst (snd kv) matcher) ps)"

text \<open>
  \<open>matchFunctionCall\<close>: a CallExpression whose callee is the Identifier of the given
  name matches, and yields the call node itself. Babel's CallExpression always has a
  callee; a call node without one matches nothing here.
\<close>

definition matchFunctionCall :: "string \<Rightarrow> NodeMatcher" where
  "matchFunctionCall identifier nd =
     (if ntype nd = ''CallExpression'' then
        (case map_of (nprops nd) ''callee'' of
           Some callee \<Rightarrow>
             (if ntype callee = ''Identifier'' \<and> nname callee = identifier
              then Some nd else None)
         | None \<Rightarrow> None)
      else None)"

text \<open>
  \<open>matchExportDefault\<close>: an ExportDefaultDeclaration matches and yields its
  \<open>declaration\<close> (not the statement itself).
\<close>

definition matchExportDefault :: NodeMatcher where
  "matchExportDefault nd =
     (if ntype nd = ''ExportDefaultDeclaration''
      then map_of (nprops nd) ''declaration'' else None)"

subsection \<open>JavaScript string helpers\<close>

text \<open>\<open>Array.prototype.join\<close> on an array of strings.\<close>

fun join :: "string \<Rightarrow> string list \<Rightarrow> string" where
  "join sep [] = []"
| "join sep [x] = x"
| "join sep (x # y # ys) = x @ sep @ join sep (y # ys)"

text \<open>
  In the rewriter a string is the list of its UTF-16 code units, which is what
  \<open>length\<close>, \<open>slice\<close> and the offsets of the parser count.
  \<open>String.prototype.slice\<close> for offsets that are not negative (Babel's offsets never
  are): both ends are clamped to the length, and an end before the start gives the empty
  string.
\<close>

definition slice :: "string \<Rightarrow> nat \<Rightarrow> nat \<Rightarrow> string" where
  "slice s a b = take (b - a) (drop a s)"

definition hexLower :: "nat \<Rightarrow> char" where
  "hexLower d = ''0123456789abcdef'' ! (d mod 16)"

text \<open>
  \<open>JSON.stringify\<close> of a string: the text between double quotes, with the quote, the
  backslash and the control characters escaped.
\<close>

definition jsonEscapeChar :: "char \<Rightarrow> string" where
  "jsonEscapeChar c =
     (if c = CHR 0x22 then [CHR 0x5C, CHR 0x22]
      else if c = CHR 0x5C then [CHR 0x5C, CHR 0x5C]
      else if c = CHR 0x08 then [CHR 0x5C, CHR ''b'']
      else if c = CHR 0x0C then [CHR 0x5C, CHR ''f'']
      else if c = CHR 0x0A then [CHR 0x5C, CHR ''n'']
      else if c = CHR 0x0D then [CHR 0x5C, CHR ''r'']
      else if c = CHR 0x09 then [CHR 0x5C, CHR ''t'']
      else if (of_char c :: nat) < 32
        then [CHR 0x5C, CHR ''u'', CHR ''0'', CHR ''0'',
              hexLower (of_char c div 16), hexLower (of_char c)]
      else [c])"

definition JSON_stringify :: "string \<Rightarrow> string" where
  "JSON_stringify s = [CHR 0x22] @ concat (map jsonEscapeChar s) @ [CHR 0x22]"

subsection \<open>The rewrite function\<close>

text \<open>
  A hook maps the text of a binding to one statement or to several; its result is a list
  of statements here (one statement is a list of one), which is what \<open>flat(Infinity)\<close>
  makes of it.
\<close>

type_synonym Hook = "string \<Rightarrow> string list"

definition rewriteAsIIFE :: "(string \<times> string) list \<Rightarrow> Hook list \<Rightarrow> NodeRewriter" where
  "rewriteAsIIFE props hooks =
     (if props = [] \<and> hooks = [] then (\<lambda>expr. expr)
      else
        (let propsToAssign =
               join '', '' (map (\<lambda>kv. join '': '' [JSON_stringify (fst kv), snd kv]) props)
         in (\<lambda>expr.
               join [CHR 0x0A]
                 (concat
                    ([[''(() => {''],
                      [''const sfc_main = /*#__PURE__*/ Object.assign('' @ expr @ '', { ''
                         @ propsToAssign @ '' })'']]
                     @ map (\<lambda>f. f ''sfc_main'') hooks
                     @ [[''return sfc_main''], [''})()'']])))))"

subsection \<open>Rewriting the matched ranges\<close>

text \<open>
  The fields \<open>start\<close> and \<open>end\<close> of an insertion point are \<open>istart\<close> and
  \<open>iend\<close> here.
\<close>

record InsertionContext =
  istart :: nat
  iend :: nat

datatype error =
  InterlacingInsertionPoints InsertionContext InsertionContext
| ParseFailure string
| StyleModuleInCustomElement

text \<open>
  \<open>insertions.sort((a, b) => b.start - a.start)\<close>: a stable sort, descending by start.
\<close>

definition sortByStartDesc :: "InsertionContext list \<Rightarrow> InsertionContext list" where
  "sortByStartDesc insertions = sort_key (\<lambda>i. - int (istart i)) insertions"

text \<open>
  The validation loop over adjacent pairs of the sorted array: \<open>later = insertions[i]\<close>,
  \<open>prior = insertions[i + 1]\<close>; the first pair that meets the test raises.
\<close>

fun checkInterlacing :: "InsertionContext list \<Rightarrow> error option" where
  "checkInterlacing (later # prior # rest) =
     (if istart later < iend prior \<and> iend later > istart prior
      then Some (InterlacingInsertionPoints prior later)
      else checkInterlacing (prior # rest))"
| "checkInterlacing _ = None"

text \<open>
  The inner loop of the rewrite: every pending range whose end is at or after the current
  end gets the delta added to its end, up to the first pending range that does not
  qualify (\<open>break\<close>). The delta may be negative; the shifted end never is
  (\<open>shifted_end_not_negative\<close> below), so it is a natural number again.
\<close>

fun shiftEnclosing :: "InsertionContext list \<Rightarrow> nat \<Rightarrow> int \<Rightarrow> InsertionContext list" where
  "shiftEnclosing [] e delta = []"
| "shiftEnclosing (other # rest) e delta =
     (if iend other \<ge> e
      then other\<lparr>iend := nat (int (iend other) + delta)\<rparr> # shiftEnclosing rest e delta
      else other # rest)"

text \<open>
  The outer loop: take the first (rightmost) pending range, rewrite its text, shift the
  pending ranges, splice.
\<close>

function rewriteInsertions :: "string \<Rightarrow> InsertionContext list \<Rightarrow> NodeRewriter \<Rightarrow> string" where
  "rewriteInsertions script [] rewriter = script"
| "rewriteInsertions script (insertion # insertions) rewriter =
     (let content = slice script (istart insertion) (iend insertion);
          replacement = rewriter content;
          delta = int (length replacement) - int (length content);
          insertions' = shiftEnclosing insertions (iend insertion) delta
      in rewriteInsertions
           (take (istart insertion) script @ replacement @ drop (iend insertion) script)
           insertions' rewriter)"
  by pat_completeness auto
termination
proof (relation "measure (\<lambda>(script, insertions, rewriter). length insertions)")
  have len: "length (shiftEnclosing xs e d) = length xs" for xs e d
    by (induction xs) auto
  fix script :: string and insertion :: InsertionContext
    and insertions :: "InsertionContext list" and rewriter :: NodeRewriter
    and content replacement :: string and delta :: int
    and insertions' :: "InsertionContext list"
  assume "insertions' = shiftEnclosing insertions (iend insertion) delta"
  then show "((take (istart insertion) script @ replacement @ drop (iend insertion) script,
               insertions', rewriter),
              script, insertion # insertions, rewriter)
             \<in> measure (\<lambda>(script, insertions, rewriter). length insertions)"
    by (simp add: len)
qed simp

text \<open>
  \<open>transformScript\<close>. The parser is a parameter: it returns the program node of the
  script, or fails.
\<close>

type_synonym Parser = "string \<Rightarrow> error + node"

definition insertionOf :: "node \<Rightarrow> InsertionContext" where
  "insertionOf nd = \<lparr>istart = nstart nd, iend = nend nd\<rparr>"

definition transformScript ::
  "Parser \<Rightarrow> string \<Rightarrow> NodeMatcher \<Rightarrow> NodeRewriter \<Rightarrow> error + (nat \<times> string)" where
  "transformScript parse script matcher rewriter =
     (case parse script of
        Inl e \<Rightarrow> Inl e
      | Inr program \<Rightarrow>
          (let insertions = map insertionOf (traverseAst program matcher);
               count = length insertions;
               sorted = sortByStartDesc insertions
           in case checkInterlacing sorted of
                Some e \<Rightarrow> Inl e
              | None \<Rightarrow> Inr (count, rewriteInsertions script sorted rewriter)))"

definition injectIntoComponent ::
  "Parser \<Rightarrow> string \<Rightarrow> (string \<times> string) list \<Rightarrow> Hook list \<Rightarrow> error + string" where
  "injectIntoComponent parse script props hooks =
     (let rewriter = rewriteAsIIFE props hooks in
      case transformScript parse script (matchFunctionCall ''defineComponent'') rewriter of
        Inl e \<Rightarrow> Inl e
      | Inr (numInjections, injectedScript) \<Rightarrow>
          if numInjections \<noteq> 0 then Inr injectedScript
          else
            (case transformScript parse script matchExportDefault rewriter of
               Inl e \<Rightarrow> Inl e
             | Inr (numInjections, injectedScript) \<Rightarrow>
                 if numInjections \<noteq> 0 then Inr injectedScript
                 else Inr (''export default '' @ rewriter ''{}'')))"

section \<open>The module assembler (src/packages/plugin-vue/src/main.ts)\<close>

subsection \<open>Values of the descriptor\<close>

text \<open>
  An attribute of a region is a string or \<open>true\<close> (an attribute without a value). The
  \<open>attrs\<close> object of a region is the list of its own entries in the order they were
  added to it, which is the order the attributes are declared in; the names are distinct.
\<close>

datatype attrValue = AttrTrue | AttrString string

type_synonym Attrs = "(string \<times> attrValue) list"

text \<open>
  The order in which JavaScript enumerates the own string keys of an object
  (\<open>for ... in\<close>, \<open>Object.entries\<close>): the keys that are array indices (the decimal
  numeral, without leading zeros, of a number below \<open>2^32 - 1\<close>) first, in ascending
  numeric order, then every other key in the order it was added.
\<close>

definition isDigit :: "char \<Rightarrow> bool" where
  "isDigit c = (c \<in> set ''0123456789'')"

definition readDecimal :: "string \<Rightarrow> int" where
  "readDecimal s = foldl (\<lambda>n c. 10 * n + (of_char c - 48)) 0 s"

definition isArrayIndex :: "string \<Rightarrow> bool" where
  "isArrayIndex name =
     (name \<noteq> [] \<and> list_all isDigit name \<and> (length name = 1 \<or> hd name \<noteq> CHR ''0'')
      \<and> readDecimal name < 4294967295)"

definition ownKeyOrder :: "(string \<times> 'a) list \<Rightarrow> (string \<times> 'a) list" where
  "ownKeyOrder entries =
     sort_key (\<lambda>kv. readDecimal (fst kv)) (filter (\<lambda>kv. isArrayIndex (fst kv)) entries)
     @ filter (\<lambda>kv. \<not> isArrayIndex (fst kv)) entries"

text \<open>The \<open>module\<close> of a style region: absent, a boolean, or the name to expose.\<close>

datatype moduleAttr = ModuleAbsent | ModuleFlag bool | ModuleName string

record SourceMapping =
  generatedLine :: nat
  generatedColumn :: nat
  source :: "string option"
  originalLine :: nat
  originalColumn :: nat

text \<open>
  A source map, decoded: its mappings in the order \<open>eachMapping\<close> visits them, and its
  sources content.
\<close>

record RawSourceMap =
  mappings :: "SourceMapping list"
  sourcesContent :: "string list"

record SFCBlock =
  block_type :: string
  block_content :: string
  block_attrs :: Attrs
  block_lang :: "string option"
  block_src :: "string option"
  block_map :: "RawSourceMap option"
  block_scoped :: bool
  block_module :: moduleAttr

record SFCDescriptor =
  desc_id :: string
  desc_filename :: string
  desc_script :: "SFCBlock option"
  desc_scriptSetup :: "SFCBlock option"
  desc_template :: "SFCBlock option"
  desc_styles :: "SFCBlock list"
  desc_customBlocks :: "SFCBlock list"

text \<open>
  The options read here. \<open>opt_devServer\<close> is \<open>None\<close> without a dev server; with one it
  holds whether \<open>devServer.config.server.hmr !== false\<close>.
\<close>

record ResolvedOptions =
  opt_devServer :: "bool option"
  opt_isProduction :: bool
  opt_devToolsEnabled :: bool
  opt_sourceMap :: bool
  opt_root :: string

text \<open>JavaScript truthiness of an optional string, \<open>a || b\<close>, and an optional string in a template literal.\<close>

definition truthy :: "string option \<Rightarrow> bool" where
  "truthy v = (case v of None \<Rightarrow> False | Some s \<Rightarrow> s \<noteq> [])"

definition orElse :: "string option \<Rightarrow> string \<Rightarrow> string" where
  "orElse v d = (case v of None \<Rightarrow> d | Some s \<Rightarrow> if s \<noteq> [] then s else d)"

definition interpolate :: "string option \<Rightarrow> string" where
  "interpolate v = (case v of None \<Rightarrow> ''undefined'' | Some s \<Rightarrow> s)"

definition attrTruthy :: "attrValue \<Rightarrow> bool" where
  "attrTruthy v = (case v of AttrTrue \<Rightarrow> True | AttrString s \<Rightarrow> s \<noteq> [])"

definition attrText :: "attrValue \<Rightarrow> string" where
  "attrText v = (case v of AttrTrue \<Rightarrow> ''true'' | AttrString s \<Rightarrow> s)"

definition moduleTruthy :: "moduleAttr \<Rightarrow> bool" where
  "moduleTruthy m =
     (case m of ModuleAbsent \<Rightarrow> False | ModuleFlag b \<Rightarrow> b | ModuleName s \<Rightarrow> s \<noteq> [])"

text \<open>A number in a template literal: its decimal digits.\<close>

fun showNat :: "nat \<Rightarrow> string" where
  "showNat n =
     (if n < 10 then [''0123456789'' ! n]
      else showNat (n div 10) @ [''0123456789'' ! (n mod 10)])"

declare showNat.simps [simp del]

subsection \<open>The query encoder\<close>

definition hexUpper :: "nat \<Rightarrow> char" where
  "hexUpper d = ''0123456789ABCDEF'' ! (d mod 16)"

definition uriUnreserved :: "char \<Rightarrow> bool" where
  "uriUnreserved c =
     (c \<in> set (''ABCDEFGHIJKLMNOPQRSTUVWXYZabcdefghijklmnopqrstuvwxyz0123456789-_.!~*()''
               @ [CHR 0x27]))"

text \<open>
  \<open>encodeURIComponent\<close>, on a string given as the bytes of its UTF-8 encoding: every
  byte that is not an unreserved character becomes \<open>%XX\<close>.
\<close>

definition encodeURIComponent :: "string \<Rightarrow> string" where
  "encodeURIComponent s =
     concat (map (\<lambda>c. if uriUnreserved c then [c]
                       else [CHR ''%'', hexUpper (of_char c div 16), hexUpper (of_char c)]) s)"

definition ignoreList :: "string list" where
  "ignoreList = [''id'', ''index'', ''src'', ''type'', ''lang'', ''module'', ''scoped'', ''generic'']"

text \<open>
  The loop of \<open>attrsToQuery\<close> over the attribute names as \<open>for ... in\<close> gives them,
  with the query built so far.
\<close>

fun attrsLoop :: "Attrs \<Rightarrow> string list \<Rightarrow> string \<Rightarrow> string" where
  "attrsLoop attrs [] query = query"
| "attrsLoop attrs (name # names) query =
     attrsLoop attrs names
       (if name \<notin> set ignoreList
        then query @ ''&'' @ encodeURIComponent name
               @ (case map_of attrs name of
                    Some v \<Rightarrow> if attrTruthy v then ''='' @ encodeURIComponent (attrText v) else []
                  | None \<Rightarrow> [])
        else query)"

definition attrsToQuery :: "Attrs \<Rightarrow> string option \<Rightarrow> bool \<Rightarrow> string" where
  "attrsToQuery attrs langFallback forceLangFallback =
     (let query = attrsLoop attrs (map fst (ownKeyOrder attrs)) [] in
      if truthy langFallback
         \<or> (case map_of attrs ''lang'' of Some v \<Rightarrow> attrTruthy v | None \<Rightarrow> False)
      then query
           @ (case map_of attrs ''lang'' of
                Some v \<Rightarrow>
                  if forceLangFallback then ''&lang.'' @ interpolate langFallback
                  else ''&lang.'' @ attrText v
              | None \<Rightarrow> ''&lang.'' @ interpolate langFallback)
      else query)"

subsection \<open>Style code\<close>

text \<open>
  Lines 364 to 376 of \<open>genStyleCode\<close>: the request of the style region at index \<open>i\<close>.
\<close>

definition styleRequestOf :: "SFCDescriptor \<Rightarrow> bool \<Rightarrow> nat \<Rightarrow> SFCBlock \<Rightarrow> string" where
  "styleRequestOf descriptor asCustomElement i style =
     (let src = orElse (block_src style) (desc_filename descriptor);
          attrsQuery = attrsToQuery (block_attrs style) (Some ''css'') False;
          srcQuery =
            (if truthy (block_src style)
             then (if block_scoped style then ''&src='' @ desc_id descriptor else ''&src=true'')
             else []);
          directQuery = (if asCustomElement then ''&inline'' else []);
          scopedQuery = (if block_scoped style then ''&scoped='' @ desc_id descriptor else []);
          query = ''?vue&type=style&index='' @ showNat i @ srcQuery @ directQuery @ scopedQuery
      in src @ query @ attrsQuery)"

definition isWordChar :: "char \<Rightarrow> bool" where
  "isWordChar c =
     (c \<in> set ''ABCDEFGHIJKLMNOPQRSTUVWXYZabcdefghijklmnopqrstuvwxyz0123456789_'')"

text \<open>
  \<open>request.replace(/\.(\w+)$/, '.module.$1')\<close>: when the request ends with a dot and one
  or more word characters, \<open>.module\<close> goes before that dot.
\<close>

definition insertModuleExt :: "string \<Rightarrow> string" where
  "insertModuleExt request =
     (let ext = rev (takeWhile isWordChar (rev request));
          stem = rev (dropWhile isWordChar (rev request))
      in if ext \<noteq> [] \<and> stem \<noteq> [] \<and> last stem = CHR ''.''
         then butlast stem @ ''.module.'' @ ext
         else request)"

definition genCSSModulesCode ::
  "nat \<Rightarrow> string \<Rightarrow> moduleAttr \<Rightarrow> string \<times> (string \<times> string)" where
  "genCSSModulesCode index request moduleName =
     (let styleVar = ''style'' @ showNat index;
          exposedName = (case moduleName of ModuleName s \<Rightarrow> s | _ \<Rightarrow> ''$style'');
          moduleRequest = insertModuleExt request
      in ([CHR 0x0A] @ ''import '' @ styleVar @ '' from '' @ JSON_stringify moduleRequest,
          (exposedName, styleVar)))"

text \<open>
  \<open>Object.assign\<close> of one entry into an object kept as its own entries in the order
  they were added: the value of a key the object has is replaced in place, a new key goes
  last. \<open>storeEntry\<close> is the assignment \<open>target[k] = v\<close> behind it: the key
  \<open>__proto__\<close> reaches the setter of the prototype, which ignores a string, so
  nothing is stored for it.
\<close>

fun objAssign :: "(string \<times> string) list \<Rightarrow> string \<Rightarrow> string \<Rightarrow> (string \<times> string) list" where
  "objAssign [] k v = [(k, v)]"
| "objAssign ((k', v') # kvs) k v =
     (if k' = k then (k, v) # kvs else (k', v') # objAssign kvs k v)"

definition storeEntry :: "(string \<times> string) list \<Rightarrow> string \<Rightarrow> string \<Rightarrow> (string \<times> string) list" where
  "storeEntry m k v = (if k = ''__proto__'' then m else objAssign m k v)"

text \<open>
  The loop of \<open>genStyleCode\<close> from index \<open>i\<close>, with \<open>stylesCode\<close> and \<open>cssModulesMap\<close> as
  built so far. Linking an external \<open>src\<close> to the descriptor writes to the descriptor
  cache only and is left out.
\<close>

fun genStyleLoop ::
  "SFCDescriptor \<Rightarrow> bool \<Rightarrow> nat \<Rightarrow> SFCBlock list \<Rightarrow> string \<Rightarrow> (string \<times> string) list option
   \<Rightarrow> error + (string \<times> (string \<times> string) list option)" where
  "genStyleLoop descriptor asCustomElement i [] stylesCode cssModulesMap =
     Inr (stylesCode, cssModulesMap)"
| "genStyleLoop descriptor asCustomElement i (style # rest) stylesCode cssModulesMap =
     (let styleRequest = styleRequestOf descriptor asCustomElement i style in
      if moduleTruthy (block_module style) then
        (if asCustomElement then Inl StyleModuleInCustomElement
         else
           (let (importCode, nameMap) = genCSSModulesCode i styleRequest (block_module style)
            in genStyleLoop descriptor asCustomElement (i + 1) rest (stylesCode @ importCode)
                 (Some (storeEntry (case cssModulesMap of None \<Rightarrow> [] | Some m \<Rightarrow> m)
                          (fst nameMap) (snd nameMap)))))
      else
        genStyleLoop descriptor asCustomElement (i + 1) rest
          (stylesCode
           @ (if asCustomElement
              then [CHR 0x0A] @ ''import _style_'' @ showNat i @ '' from ''
                   @ JSON_stringify styleRequest
              else [CHR 0x0A] @ ''import '' @ JSON_stringify styleRequest))
          cssModulesMap)"

definition genStyleCode ::
  "SFCDescriptor \<Rightarrow> bool \<Rightarrow> (string \<times> string) list
   \<Rightarrow> error + (string \<times> (string \<times> string) list)" where
  "genStyleCode descriptor asCustomElement attachedProps =
     (case (if desc_styles descriptor \<noteq> []
            then genStyleLoop descriptor asCustomElement 0 (desc_styles descriptor) [] None
            else Inr ([], None)) of
        Inl e \<Rightarrow> Inl e
      | Inr (stylesCode, cssModulesMap) \<Rightarrow>
          (let attachedProps1 =
                 (if desc_styles descriptor \<noteq> [] \<and> asCustomElement
                  then attachedProps
                       @ [(''styles'',
                           ''['' @ join '',''
                                    (map (\<lambda>i. ''_style_'' @ showNat i)
                                       [0..<length (desc_styles descriptor)])
                           @ '']'')]
                  else attachedProps)
           in case cssModulesMap of
                None \<Rightarrow> Inr (stylesCode, attachedProps1)
              | Some m \<Rightarrow>
                  (let mappingCode =
                         foldl (\<lambda>code kv. code @ [CHR 0x22] @ fst kv @ [CHR 0x22] @ '':''
                                           @ snd kv @ '','' @ [CHR 0x0A])
                           (''{'' @ [CHR 0x0A]) (ownKeyOrder m)
                         @ ''}''
                   in Inr (stylesCode @ [CHR 0x0A] @ ''const cssModules = '' @ mappingCode,
                           attachedProps1 @ [(''__cssModules'', ''cssModules'')]))))"

subsection \<open>Custom blocks, template and script code\<close>

text \<open>The loop of \<open>genCustomBlockCode\<close> from index \<open>index\<close>, with the code built so far.\<close>

fun customBlockLoop :: "SFCDescriptor \<Rightarrow> nat \<Rightarrow> SFCBlock list \<Rightarrow> string \<Rightarrow> string" where
  "customBlockLoop descriptor index [] code = code"
| "customBlockLoop descriptor index (block # rest) code =
     (let src = orElse (block_src block) (desc_filename descriptor);
          attrsQuery = attrsToQuery (block_attrs block) (Some (block_type block)) False;
          srcQuery = (if truthy (block_src block) then ''&src=true'' else []);
          query = ''?vue&type='' @ block_type block @ ''&index='' @ showNat index
                  @ srcQuery @ attrsQuery;
          request = JSON_stringify (src @ query);
          code1 = code @ ''import block'' @ showNat index @ '' from '' @ request @ [CHR 0x0A];
          code2 = code1 @ ''if (typeof block'' @ showNat index @ '' === 'function') block''
                  @ showNat index @ ''(_sfc_main)'' @ [CHR 0x0A]
      in customBlockLoop descriptor (index + 1) rest code2)"

definition genCustomBlockCode :: "SFCDescriptor \<Rightarrow> string" where
  "genCustomBlockCode descriptor = customBlockLoop descriptor 0 (desc_customBlocks descriptor) []"

text \<open>
  The collaborators of \<open>transformMain\<close> that are not in this file: the parser of the
  rewriter, the descriptor cache, the script and template compilers, the hot-update
  comparisons, the final lowering, the script identifier and the path functions
  (\<open>ext_relative root filename\<close> stands for
  \<open>normalizePath(path.relative(root, filename))\<close>). They are parameters.
\<close>

record Externals =
  ext_parse :: Parser
  ext_getPrevDescriptor :: "string \<Rightarrow> SFCDescriptor option"
  ext_createDescriptor :: "string \<Rightarrow> string \<Rightarrow> ResolvedOptions \<Rightarrow> SFCDescriptor \<times> string list"
  ext_resolveScript :: "SFCDescriptor \<Rightarrow> ResolvedOptions \<Rightarrow> bool \<Rightarrow> SFCBlock option"
  ext_canInlineMain :: "SFCDescriptor \<Rightarrow> ResolvedOptions \<Rightarrow> bool"
  ext_isUseInlineTemplate :: "SFCDescriptor \<Rightarrow> bool \<Rightarrow> bool"
  ext_transformTemplateInMain ::
    "string \<Rightarrow> SFCDescriptor \<Rightarrow> ResolvedOptions \<Rightarrow> bool \<Rightarrow> string \<times> RawSourceMap option"
  ext_isEqualBlock :: "SFCBlock option \<Rightarrow> SFCBlock option \<Rightarrow> bool"
  ext_isOnlyTemplateChanged :: "SFCDescriptor \<Rightarrow> SFCDescriptor \<Rightarrow> bool"
  ext_transformWithEsbuild ::
    "string \<Rightarrow> string \<Rightarrow> bool \<Rightarrow> RawSourceMap option \<Rightarrow> string \<times> RawSourceMap"
  ext_scriptIdentifier :: string
  ext_basename :: "string \<Rightarrow> string"
  ext_extname :: "string \<Rightarrow> string"
  ext_relative :: "string \<Rightarrow> string \<Rightarrow> string"

text \<open>
  \<open>genTemplateCode\<close>, for the template region of the descriptor (the caller has checked
  that there is one).
\<close>

definition genTemplateCode ::
  "Externals \<Rightarrow> SFCBlock \<Rightarrow> SFCDescriptor \<Rightarrow> ResolvedOptions \<Rightarrow> bool
   \<Rightarrow> string \<times> RawSourceMap option" where
  "genTemplateCode ext template descriptor options ssr =
     (let hasScoped = list_ex block_scoped (desc_styles descriptor) in
      if (\<not> truthy (block_lang template) \<or> block_lang template = Some ''html'')
         \<and> \<not> truthy (block_src template)
      then ext_transformTemplateInMain ext (block_content template) descriptor options ssr
      else
        (let src = orElse (block_src template) (desc_filename descriptor);
             srcQuery =
               (if truthy (block_src template)
                then (if hasScoped then ''&src='' @ desc_id descriptor else ''&src=true'')
                else []);
             scopedQuery = (if hasScoped then ''&scoped='' @ desc_id descriptor else []);
             attrsQuery = attrsToQuery (block_attrs template) (Some ''js'') True;
             query = ''?vue&type=template'' @ srcQuery @ scopedQuery @ attrsQuery;
             request = JSON_stringify (src @ query);
             renderFnName = (if ssr then ''ssrRender'' else ''render'')
         in (''import { '' @ renderFnName @ '' as _sfc_'' @ renderFnName @ '' } from ''
               @ request,
             None)))"

definition genScriptCode ::
  "Externals \<Rightarrow> SFCDescriptor \<Rightarrow> ResolvedOptions \<Rightarrow> bool \<Rightarrow> string \<times> RawSourceMap option" where
  "genScriptCode ext descriptor options ssr =
     (case ext_resolveScript ext descriptor options ssr of
        None \<Rightarrow> (''const '' @ ext_scriptIdentifier ext @ '' = {}'', None)
      | Some script \<Rightarrow>
          if ext_canInlineMain ext descriptor options
          then (block_content script, block_map script)
          else
            (let src = orElse (block_src script) (desc_filename descriptor);
                 langFallback =
                   (if truthy (block_src script) \<and> drop 1 (ext_extname ext src) \<noteq> []
                    then drop 1 (ext_extname ext src) else ''js'');
                 attrsQuery = attrsToQuery (block_attrs script) (Some langFallback) False;
                 srcQuery = (if truthy (block_src script) then ''&src=true'' else []);
                 query = ''?vue&type=script'' @ srcQuery @ attrsQuery;
                 request = JSON_stringify (src @ query)
             in (join [CHR 0x0A]
                   [''import sfc_main from '' @ request,
                    ''export * from '' @ request,
                    ''export default sfc_main''],
                 None)))"

subsection \<open>Source map composition\<close>

text \<open>
  The number of matches of \<open>/\r?\n/g\<close> in a text: the matches are taken from left to
  right and do not overlap.
\<close>

fun countLineBreaks :: "string \<Rightarrow> nat" where
  "countLineBreaks [] = 0"
| "countLineBreaks (c # cs) =
     (if c = CHR 0x0D \<and> cs \<noteq> [] \<and> hd cs = CHR 0x0A then Suc (countLineBreaks (tl cs))
      else if c = CHR 0x0A then Suc (countLineBreaks cs)
      else countLineBreaks cs)"

text \<open>
  The callback given to \<open>eachMapping\<close>: a mapping without a source is skipped; any other
  is added to the generator with its generated line moved by \<open>offset\<close>. The generator is
  the list of its mappings, in the order they were added.
\<close>

definition addShiftedMapping :: "nat \<Rightarrow> SourceMapping list \<Rightarrow> SourceMapping \<Rightarrow> SourceMapping list" where
  "addShiftedMapping offset gen m =
     (case source m of
        None \<Rightarrow> gen
      | Some s \<Rightarrow>
          gen @ [\<lparr>generatedLine = generatedLine m + offset,
                   generatedColumn = generatedColumn m,
                   source = Some s,
                   originalLine = originalLine m,
                   originalColumn = originalColumn m\<rparr>])"

text \<open>Lines 172 to 212 of \<open>transformMain\<close>: the resolved map.\<close>

definition resolveSourceMap ::
  "bool \<Rightarrow> RawSourceMap option \<Rightarrow> RawSourceMap option \<Rightarrow> string \<Rightarrow> RawSourceMap option" where
  "resolveSourceMap sourceMap scriptMap templateMap scriptCode =
     (if sourceMap then
        (case scriptMap of
           None \<Rightarrow> templateMap
         | Some sm \<Rightarrow>
             (case templateMap of
                None \<Rightarrow> Some sm
              | Some tm \<Rightarrow>
                  (let gen = mappings sm;
                       offset = countLineBreaks scriptCode + 1;
                       gen1 = foldl (addShiftedMapping offset) gen (mappings tm)
                   in Some \<lparr>mappings = gen1, sourcesContent = sourcesContent tm\<rparr>)))
      else None)"

subsection \<open>The pipeline\<close>

text \<open>
  The result of \<open>transformMain\<close>. \<open>res_map = None\<close> stands for the placeholder
  \<open>{ mappings: '' }\<close>; \<open>res_lang\<close> is \<open>meta.vite.lang\<close>.
\<close>

record TransformResult =
  res_code :: string
  res_map :: "RawSourceMap option"
  res_lang :: string

definition langOf :: "SFCBlock option \<Rightarrow> string option" where
  "langOf b = (case b of None \<Rightarrow> None | Some blk \<Rightarrow> block_lang blk)"

definition srcOf :: "SFCBlock option \<Rightarrow> string option" where
  "srcOf b = (case b of None \<Rightarrow> None | Some blk \<Rightarrow> block_src blk)"

text \<open>\<open>/tsx?$/.test(lang)\<close>: the tag ends with \<open>ts\<close> or with \<open>tsx\<close>.\<close>

definition endsWithTs :: "string \<Rightarrow> bool" where
  "endsWithTs l = (take 2 (rev l) = ''st'' \<or> take 3 (rev l) = ''xst'')"

text \<open>
  Lines 219 to 225 of \<open>transformMain\<close>: whether the assembled module goes through the
  final lowering.
\<close>

definition needsLowering :: "SFCDescriptor \<Rightarrow> bool" where
  "needsLowering descriptor =
     (let lang =
            (if truthy (langOf (desc_scriptSetup descriptor))
             then langOf (desc_scriptSetup descriptor)
             else langOf (desc_script descriptor))
      in truthy lang \<and> endsWithTs (interpolate lang)
         \<and> \<not> truthy (srcOf (desc_script descriptor)))"

definition hmrHook :: Hook where
  "hmrHook expr =
     [''typeof __VUE_HMR_RUNTIME__ !== 'undefined' && ''
      @ ''__VUE_HMR_RUNTIME__.createRecord('' @ expr @ ''.__hmrId, '' @ expr @ '')'']"

definition hmrAcceptLines :: "string list" where
  "hmrAcceptLines =
     [''import.meta.hot.accept(mod => {'',
      ''  if (!mod) return'',
      ''  const { default: updated, _rerender_only } = mod'',
      ''  if (_rerender_only) {'',
      ''    __VUE_HMR_RUNTIME__.rerender(updated.__hmrId, updated.render)'',
      ''  } else {'',
      ''    __VUE_HMR_RUNTIME__.reload(updated.__hmrId, updated)'',
      ''  }'',
      ''})'']"

definition ssrHook :: "string \<Rightarrow> Hook" where
  "ssrHook normalizedFilename expr =
     [''const { setup } = '' @ expr,
      expr @ ''.setup = (props, ctx) => {'',
      ''  const ssrContext = __vite_useSSRContext()'',
      ''  ;(ssrContext.modules || (ssrContext.modules = new Set())).add(''
        @ JSON_stringify normalizedFilename @ '')'',
      ''  return setup ? setup(props, ctx) : undefined'',
      ''}'']"

text \<open>
  \<open>transformMain\<close>. Errors of the descriptor make it return \<open>null\<close> (\<open>Inr None\<close>) once
  they are reported; an exception is \<open>Inl\<close>. Writing the descriptor to the cache
  (\<open>getDescriptor\<close>, \<open>linkSrcToDescriptor\<close>) changes nothing that is computed here and is
  left out.
\<close>

definition transformMain ::
  "Externals \<Rightarrow> string \<Rightarrow> string \<Rightarrow> ResolvedOptions \<Rightarrow> bool \<Rightarrow> bool
   \<Rightarrow> error + TransformResult option" where
  "transformMain ext code filename options ssr asCustomElement =
     (let devServer = opt_devServer options;
          isProduction = opt_isProduction options;
          devToolsEnabled = opt_devToolsEnabled options;
          prevDescriptor = ext_getPrevDescriptor ext filename;
          (descriptor, errors) = ext_createDescriptor ext filename code options
      in
      if errors \<noteq> [] then Inr None
      else
        (let hasScoped = list_ex block_scoped (desc_styles descriptor);
             (scriptCode, scriptMap) = genScriptCode ext descriptor options ssr;
             templateImport =
               (case desc_template descriptor of
                  None \<Rightarrow> None
                | Some template \<Rightarrow>
                    if ext_isUseInlineTemplate ext descriptor (devServer = None)
                    then None else Some template);
             (templateCode, templateMap) =
               (case templateImport of
                  Some template \<Rightarrow> genTemplateCode ext template descriptor options ssr
                | None \<Rightarrow> ([], None));
             attachedProps1 =
               (case templateImport of
                  Some template \<Rightarrow>
                    [if ssr then (''ssrRender'', ''_sfc_ssrRender'')
                     else (''render'', ''_sfc_render'')]
                | None \<Rightarrow>
                    (case prevDescriptor of
                       Some prev \<Rightarrow>
                         if \<not> ext_isEqualBlock ext (desc_template descriptor) (desc_template prev)
                         then [(if ssr then ''ssrRender'' else ''render'', ''() => {}'')]
                         else []
                     | None \<Rightarrow> []))
         in
         case genStyleCode descriptor asCustomElement attachedProps1 of
           Inl e \<Rightarrow> Inl e
         | Inr (stylesCode, attachedProps2) \<Rightarrow>
             (let customBlocksCode = genCustomBlockCode descriptor;
                  output0 = [templateCode, stylesCode, customBlocksCode];
                  attachedProps3 =
                    (if hasScoped
                     then attachedProps2
                          @ [(''__scopeId'', JSON_stringify (''data-v-'' @ desc_id descriptor))]
                     else attachedProps2);
                  attachedProps4 =
                    (if devToolsEnabled \<or> (devServer \<noteq> None \<and> \<not> isProduction)
                     then attachedProps3
                          @ [(''__file'',
                              JSON_stringify
                                (if isProduction then ext_basename ext filename else filename))]
                     else attachedProps3);
                  hmr = (devServer = Some True \<and> \<not> ssr \<and> \<not> isProduction);
                  attachedProps5 =
                    (if hmr
                     then attachedProps4 @ [(''__hmrId'', JSON_stringify (desc_id descriptor))]
                     else attachedProps4);
                  attachedHooks1 = (if hmr then [hmrHook] else []);
                  output1 =
                    (if hmr
                     then output0
                          @ (case prevDescriptor of
                               Some prev \<Rightarrow>
                                 if ext_isOnlyTemplateChanged ext prev descriptor
                                 then [''export const _rerender_only = true''] else []
                             | None \<Rightarrow> [])
                          @ hmrAcceptLines
                     else output0);
                  output2 =
                    (if ssr
                     then (''import { useSSRContext as __vite_useSSRContext } from 'vue''
                           @ [CHR 0x27]) # output1
                     else output1);
                  attachedHooks2 =
                    (if ssr
                     then attachedHooks1 @ [ssrHook (ext_relative ext (opt_root options) filename)]
                     else attachedHooks1);
                  resolvedMap =
                    resolveSourceMap (opt_sourceMap options) scriptMap templateMap scriptCode
              in
              case injectIntoComponent (ext_parse ext) scriptCode attachedProps5 attachedHooks2 of
                Inl e \<Rightarrow> Inl e
              | Inr injected \<Rightarrow>
                  (let output3 = output2 @ [injected];
                       resolvedCode = join [CHR 0x0A] output3;
                       (resolvedCode1, resolvedMap1) =
                         (if needsLowering descriptor
                          then
                            (let (code1, map1) =
                                   ext_transformWithEsbuild ext resolvedCode filename
                                     (opt_sourceMap options) resolvedMap
                             in (code1,
                                 if resolvedMap \<noteq> None then Some map1 else resolvedMap))
                          else (resolvedCode, resolvedMap))
                   in Inr (Some \<lparr>res_code = resolvedCode1,
                                  res_map = resolvedMap1,
                                  res_lang =
                                    orElse (langOf (desc_script descriptor))
                                      (orElse (langOf (desc_scriptSetup descriptor)) ''js'')\<rparr>)))))"

subsection \<open>The reference rewriter\<close>

text \<open>
  The reference the rewriter is compared with: one pass from left to right over the
  ranges sorted by start, copying each gap unchanged and putting the rewritten text of
  each range in its place. \<open>pos\<close> is the offset reached in the original text.
\<close>

fun referenceBuild :: "string \<Rightarrow> nat \<Rightarrow> InsertionContext list \<Rightarrow> NodeRewriter \<Rightarrow> string" where
  "referenceBuild script pos [] rewriter = drop pos script"
| "referenceBuild script pos (r # rs) rewriter =
     slice script pos (istart r) @ rewriter (slice script (istart r) (iend r))
     @ referenceBuild script (iend r) rs rewriter"

definition referenceRewrite :: "string \<Rightarrow> InsertionContext list \<Rightarrow> NodeRewriter \<Rightarrow> string" where
  "referenceRewrite script ranges rewriter =
     referenceBuild script 0 (sort_key istart ranges) rewriter"

section \<open>Concrete inputs\<close>

text \<open>
  Scripts with the trees the parser gives for them, descriptors, options and collaborators
  on which the definitions above are evaluated below.
\<close>

definition twoCallsScript :: string where
  "twoCallsScript = ''defineComponent(a);defineComponent(b)''"

definition twoCallsProgram :: node where
  "twoCallsProgram =
     Node ''Program'' [] 0 37
       [(''body'',
         Node [] [] 0 0
           [(''0'',
             Node ''ExpressionStatement'' [] 0 19
               [(''expression'',
                 Node ''CallExpression'' [] 0 18
                   [(''callee'', Node ''Identifier'' ''defineComponent'' 0 15 []),
                    (''arguments'',
                     Node [] [] 0 0 [(''0'', Node ''Identifier'' ''a'' 16 17 [])])])]),
            (''1'',
             Node ''ExpressionStatement'' [] 19 37
               [(''expression'',
                 Node ''CallExpression'' [] 19 37
                   [(''callee'', Node ''Identifier'' ''defineComponent'' 19 34 []),
                    (''arguments'',
                     Node [] [] 0 0 [(''0'', Node ''Identifier'' ''b'' 35 36 [])])])])])]"

definition nestedScript :: string where
  "nestedScript = ''defineComponent(defineComponent({}))''"

definition nestedProgram :: node where
  "nestedProgram =
     Node ''Program'' [] 0 36
       [(''body'',
         Node [] [] 0 0
           [(''0'',
             Node ''ExpressionStatement'' [] 0 36
               [(''expression'',
                 Node ''CallExpression'' [] 0 36
                   [(''callee'', Node ''Identifier'' ''defineComponent'' 0 15 []),
                    (''arguments'',
                     Node [] [] 0 0
                       [(''0'',
                         Node ''CallExpression'' [] 16 35
                           [(''callee'', Node ''Identifier'' ''defineComponent'' 16 31 []),
                            (''arguments'',
                             Node [] [] 0 0
                               [(''0'',
                                 Node ''ObjectExpression'' [] 32 34
                                   [(''properties'', Node [] [] 0 0 [])])])])])])])])]"

text \<open>
  A tree no parser returns: two matched calls whose spans overlap without nesting, as a
  faulty matcher or a malformed tree would give.
\<close>

definition overlappingProgram :: node where
  "overlappingProgram =
     Node ''Program'' [] 0 15
       [(''body'',
         Node [] [] 0 0
           [(''0'',
             Node ''CallExpression'' [] 0 10
               [(''callee'', Node ''Identifier'' ''defineComponent'' 0 5 [])]),
            (''1'',
             Node ''CallExpression'' [] 5 15
               [(''callee'', Node ''Identifier'' ''defineComponent'' 5 10 [])])])]"

definition sideEffectScript :: string where
  "sideEffectScript = ''console.log(1)''"

definition sideEffectProgram :: node where
  "sideEffectProgram =
     Node ''Program'' [] 0 14
       [(''body'',
         Node [] [] 0 0
           [(''0'',
             Node ''ExpressionStatement'' [] 0 14
               [(''expression'',
                 Node ''CallExpression'' [] 0 14
                   [(''callee'',
                     Node ''MemberExpression'' [] 0 11
                       [(''object'', Node ''Identifier'' ''console'' 0 7 []),
                        (''property'', Node ''Identifier'' ''log'' 8 11 [])]),
                    (''arguments'',
                     Node [] [] 0 0 [(''0'', Node ''NumericLiteral'' [] 12 13 [])])])])])]"

definition exportDefaultProgram :: node where
  "exportDefaultProgram =
     Node ''Program'' [] 0 17
       [(''body'',
         Node [] [] 0 0
           [(''0'',
             Node ''ExportDefaultDeclaration'' [] 0 17
               [(''declaration'',
                 Node ''ObjectExpression'' [] 15 17 [(''properties'', Node [] [] 0 0 [])])])])]"

definition wrapCall :: NodeRewriter where
  "wrapCall expr = ''W('' @ expr @ '')''"

definition exampleStyle :: SFCBlock where
  "exampleStyle =
     \<lparr>block_type = ''style'', block_content = ''a { color: red }'',
      block_attrs = [(''scoped'', AttrTrue)], block_lang = None, block_src = None,
      block_map = None, block_scoped = True, block_module = ModuleAbsent\<rparr>"

definition exampleDescriptor :: SFCDescriptor where
  "exampleDescriptor =
     \<lparr>desc_id = ''7ba5bd90'', desc_filename = ''App.vue'', desc_script = None,
      desc_scriptSetup = None, desc_template = None, desc_styles = [exampleStyle],
      desc_customBlocks = []\<rparr>"

text \<open>
  A scoped style with an external source and attributes declared in the order
  \<open>src\<close>, \<open>scoped\<close>, \<open>b\<close>, \<open>10\<close>, \<open>2\<close>.
\<close>

definition numberedAttrsStyle :: SFCBlock where
  "numberedAttrsStyle =
     \<lparr>block_type = ''style'', block_content = [],
      block_attrs = [(''src'', AttrString ''./a.css''), (''scoped'', AttrTrue),
                     (''b'', AttrString ''1''), (''10'', AttrString ''x''),
                     (''2'', AttrString ''y'')],
      block_lang = None, block_src = Some ''./a.css'',
      block_map = None, block_scoped = True, block_module = ModuleAbsent\<rparr>"

definition moduleStyleDescriptor :: SFCDescriptor where
  "moduleStyleDescriptor =
     exampleDescriptor\<lparr>desc_styles := [exampleStyle\<lparr>block_module := ModuleFlag True\<rparr>]\<rparr>"

definition scriptBlock :: "string \<Rightarrow> string \<Rightarrow> SFCBlock" where
  "scriptBlock l text =
     \<lparr>block_type = ''script'', block_content = text, block_attrs = [(''lang'', AttrString l)],
      block_lang = Some l, block_src = None, block_map = None, block_scoped = False,
      block_module = ModuleAbsent\<rparr>"

text \<open>A component with a plain script in \<open>js\<close> and a setup script in \<open>ts\<close>.\<close>

definition twoScriptsDescriptor :: SFCDescriptor where
  "twoScriptsDescriptor =
     \<lparr>desc_id = ''7ba5bd90'', desc_filename = ''App.vue'',
      desc_script = Some (scriptBlock ''js'' ''export default {}''),
      desc_scriptSetup = Some (scriptBlock ''ts'' []),
      desc_template = None, desc_styles = [], desc_customBlocks = []\<rparr>"

definition exampleOptions :: ResolvedOptions where
  "exampleOptions =
     \<lparr>opt_devServer = None, opt_isProduction = True, opt_devToolsEnabled = False,
      opt_sourceMap = False, opt_root = ''/''\<rparr>"

text \<open>
  Collaborators for a descriptor \<open>d\<close>: the parser returns the tree of
  \<open>export default {}\<close>, the descriptor parser returns \<open>d\<close> without errors, the script is
  the plain script inlined, and the lowering marks its output.
\<close>

definition exampleExternals :: "SFCDescriptor \<Rightarrow> Externals" where
  "exampleExternals d =
     \<lparr>ext_parse = (\<lambda>script. Inr exportDefaultProgram),
      ext_getPrevDescriptor = (\<lambda>filename. None),
      ext_createDescriptor = (\<lambda>filename code options. (d, [])),
      ext_resolveScript = (\<lambda>descriptor options ssr. desc_script descriptor),
      ext_canInlineMain = (\<lambda>descriptor options. True),
      ext_isUseInlineTemplate = (\<lambda>descriptor inlineTemplate. False),
      ext_transformTemplateInMain = (\<lambda>content descriptor options ssr. ([], None)),
      ext_isEqualBlock = (\<lambda>a b. a = b),
      ext_isOnlyTemplateChanged = (\<lambda>prev next. False),
      ext_transformWithEsbuild =
        (\<lambda>code filename sourcemap inMap.
           (''/* lowered */'' @ code, \<lparr>mappings = [], sourcesContent = []\<rparr>)),
      ext_scriptIdentifier = ''_sfc_main'',
      ext_basename = (\<lambda>p. p),
      ext_extname = (\<lambda>p. ''.vue''),
      ext_relative = (\<lambda>root p. p)\<rparr>"

definition exampleTemplateMap :: RawSourceMap where
  "exampleTemplateMap =
     \<lparr>mappings =
        [\<lparr>generatedLine = 1, generatedColumn = 0, source = Some ''App.vue'',
          originalLine = 3, originalColumn = 2\<rparr>,
         \<lparr>generatedLine = 2, generatedColumn = 0, source = None,
          originalLine = 0, originalColumn = 0\<rparr>],
      sourcesContent = [''<template/>'']\<rparr>"

section \<open>Properties of the rewriter\<close>

subsection \<open>Validation of the sorted ranges\<close>

lemma sorted_desc_start:
  "sorted (map (\<lambda>i. - int (istart i)) (sortByStartDesc xs))"
  by (simp add: sortByStartDesc_def)

text \<open>
  On non-empty ranges sorted by descending start, the validation accepts exactly the
  lists whose ranges lie one after the other: every range ends where or before each
  range ahead of it in the list starts.
\<close>

lemma check_pairwise:
  assumes "sorted (map (\<lambda>i. - int (istart i)) xs)"
    and "\<forall>i \<in> set xs. istart i < iend i"
    and "checkInterlacing xs = None"
  shows "sorted_wrt (\<lambda>later prior. iend prior \<le> istart later) xs"
  using assms
proof (induction xs rule: checkInterlacing.induct)
  case (1 later prior rest)
  from "1.prems"(3) have adj: "\<not> (istart later < iend prior \<and> iend later > istart prior)"
    and chk: "checkInterlacing (prior # rest) = None"
    by (auto split: if_splits)
  from "1.prems"(1) have ord: "istart prior \<le> istart later"
    and srt: "sorted (map (\<lambda>i. - int (istart i)) (prior # rest))"
    by auto
  from "1.prems"(2) have ne: "istart later < iend later"
    and nes: "\<forall>i \<in> set (prior # rest). istart i < iend i"
    by auto
  have ih: "sorted_wrt (\<lambda>later prior. iend prior \<le> istart later) (prior # rest)"
    using "1.IH" adj srt nes chk by blast
  from adj ord ne have first: "iend prior \<le> istart later" by linarith
  have "iend y \<le> istart later" if "y \<in> set rest" for y
  proof -
    from ih that have "iend y \<le> istart prior" by auto
    with ord show ?thesis by linarith
  qed
  with first ih show ?case by auto
qed simp_all

lemma sorted_wrt_two:
  assumes "sorted_wrt P xs" "x \<in> set xs" "y \<in> set xs" "x \<noteq> y"
  shows "P x y \<or> P y x"
  using assms by (induction xs) auto

lemma overlap_raises:
  assumes ne: "\<forall>i \<in> set insertions. istart i < iend i"
    and a: "a \<in> set insertions" and b: "b \<in> set insertions"
    and ab: "a \<noteq> b" and o1: "istart a < iend b" and o2: "istart b < iend a"
  shows "checkInterlacing (sortByStartDesc insertions) \<noteq> None"
proof
  assume none: "checkInterlacing (sortByStartDesc insertions) = None"
  have s: "set (sortByStartDesc insertions) = set insertions"
    by (simp add: sortByStartDesc_def)
  have "sorted_wrt (\<lambda>later prior. iend prior \<le> istart later) (sortByStartDesc insertions)"
    using check_pairwise [OF sorted_desc_start _ none] ne s by simp
  from sorted_wrt_two [OF this, of a b] a b ab s
  have "iend b \<le> istart a \<or> iend a \<le> istart b" by simp
  with o1 o2 show False by linarith
qed

lemma checkInterlacing_error:
  "checkInterlacing xs = Some e \<Longrightarrow> \<exists>prior later. e = InterlacingInsertionPoints prior later"
  by (induction xs rule: checkInterlacing.induct) (auto split: if_splits)

text \<open>
  C5. When two of the matched ranges overlap without either containing the other, the
  rewriter raises the interlacing error, whatever the rewrite function is: the error
  carries the two ranges and no text, and the rewrite function is never applied. The
  matched ranges are spans of syntax nodes, so none of them is empty.
\<close>

theorem partial_overlap_raises:
  assumes p: "parse script = Inr program"
    and ne: "\<forall>n \<in> set (traverseAst program matcher). nstart n < nend n"
    and a: "a \<in> set (traverseAst program matcher)"
    and b: "b \<in> set (traverseAst program matcher)"
    and o: "nstart a < nstart b" "nstart b < nend a" "nend a < nend b"
  shows "\<exists>prior later. \<forall>rewriter.
           transformScript parse script matcher rewriter
             = Inl (InterlacingInsertionPoints prior later)"
proof -
  define insertions where "insertions = map insertionOf (traverseAst program matcher)"
  have ne': "\<forall>i \<in> set insertions. istart i < iend i"
    using ne by (simp add: insertions_def insertionOf_def)
  have a': "insertionOf a \<in> set insertions" and b': "insertionOf b \<in> set insertions"
    using a b by (simp_all add: insertions_def)
  have "checkInterlacing (sortByStartDesc insertions) \<noteq> None"
    using overlap_raises [OF ne' a' b'] o by (simp add: insertionOf_def)
  then obtain e where e: "checkInterlacing (sortByStartDesc insertions) = Some e"
    by auto
  from checkInterlacing_error [OF e] obtain prior later
    where "e = InterlacingInsertionPoints prior later" by blast
  with e p have "transformScript parse script matcher rewriter
                  = Inl (InterlacingInsertionPoints prior later)" for rewriter
    by (simp add: transformScript_def insertions_def Let_def)
  then show ?thesis by blast
qed

lemma overlapping_matches:
  "traverseAst overlappingProgram (matchFunctionCall ''defineComponent'') =
     [Node ''CallExpression'' [] 0 10
        [(''callee'', Node ''Identifier'' ''defineComponent'' 0 5 [])],
      Node ''CallExpression'' [] 5 15
        [(''callee'', Node ''Identifier'' ''defineComponent'' 5 10 [])]]"
  by (simp add: overlappingProgram_def matchFunctionCall_def)

theorem partial_overlap_raises_witness:
  "\<exists>prior later. \<forall>rewriter.
     transformScript (\<lambda>script. Inr overlappingProgram) ''aaaaabbbbbccccc''
       (matchFunctionCall ''defineComponent'') rewriter
     = Inl (InterlacingInsertionPoints prior later)"
  by (rule partial_overlap_raises
        [where program = overlappingProgram
           and a = "Node ''CallExpression'' [] 0 10
                      [(''callee'', Node ''Identifier'' ''defineComponent'' 0 5 [])]"
           and b = "Node ''CallExpression'' [] 5 15
                      [(''callee'', Node ''Identifier'' ''defineComponent'' 5 10 [])]"])
     (simp_all add: overlapping_matches)

text \<open>
  C1. Two calls of \<open>defineComponent\<close>, one inside the other: the validation raises the
  interlacing error on them, for every rewrite function, and so does the injection.
\<close>

theorem nested_calls_raise_interlacing:
  "transformScript (\<lambda>script. Inr nestedProgram) nestedScript
     (matchFunctionCall ''defineComponent'') rewriter
     = Inl (InterlacingInsertionPoints \<lparr>istart = 0, iend = 36\<rparr> \<lparr>istart = 16, iend = 35\<rparr>)
   \<and> injectIntoComponent (\<lambda>script. Inr nestedProgram) nestedScript props hooks
     = Inl (InterlacingInsertionPoints \<lparr>istart = 0, iend = 36\<rparr> \<lparr>istart = 16, iend = 35\<rparr>)"
  by (simp add: injectIntoComponent_def transformScript_def nestedProgram_def
      matchFunctionCall_def insertionOf_def sortByStartDesc_def)

subsection \<open>The rewrite against the reference\<close>

lemma slice_prefix:
  assumes "q \<le> n" "n \<le> length s"
  shows "slice (take n s @ t) p q = slice s p q"
proof -
  have "take (q - p) (drop p (take n s @ t)) = take (q - p) (drop p (take n s))"
    using assms by (cases "p \<le> n") auto
  also have "\<dots> = take (q - p) (take (n - p) (drop p s))"
    by (simp add: drop_take)
  also have "\<dots> = take (q - p) (drop p s)"
    using assms by (simp add: min_def)
  finally show ?thesis by (simp add: slice_def)
qed

text \<open>
  Splicing the rewritten text of the last range into the script first, and building the
  rest from the spliced script, gives what the reference builds from the original.
\<close>

lemma referenceBuild_last_spliced:
  assumes "\<forall>a \<in> set as. istart a \<le> istart x \<and> iend a \<le> istart x"
    and "pos \<le> istart x" and "istart x \<le> length s"
  shows "referenceBuild s pos (as @ [x]) rw
         = referenceBuild
             (take (istart x) s @ rw (slice s (istart x) (iend x)) @ drop (iend x) s)
             pos as rw"
  using assms
proof (induction as arbitrary: pos)
  case Nil
  then show ?case by (simp add: slice_def drop_take)
next
  case (Cons a as)
  have sa: "istart a \<le> istart x" and ea: "iend a \<le> istart x"
    using Cons.prems(1) by auto
  have rest: "\<forall>a \<in> set as. istart a \<le> istart x \<and> iend a \<le> istart x"
    using Cons.prems(1) by auto
  note ih = Cons.IH [OF rest ea Cons.prems(3)]
  show ?case
    using ih sa ea Cons.prems(3) by (simp add: slice_prefix)
qed

lemma shiftEnclosing_disjoint:
  assumes "\<forall>y \<in> set rest. iend y < e"
  shows "shiftEnclosing rest e delta = rest"
  using assms by (cases rest) auto

lemma rewriteInsertions_reference:
  assumes "sorted_wrt (\<lambda>later prior. iend prior \<le> istart later) xs"
    and "\<forall>i \<in> set xs. istart i < iend i \<and> iend i \<le> length s"
  shows "rewriteInsertions s xs rw = referenceBuild s 0 (rev xs) rw"
  using assms
proof (induction xs arbitrary: s)
  case Nil
  then show ?case by simp
next
  case (Cons x rest)
  define s' where
    "s' = take (istart x) s @ rw (slice s (istart x) (iend x)) @ drop (iend x) s"
  have x: "istart x < iend x" "iend x \<le> length s"
    using Cons.prems(2) by auto
  have below: "\<forall>y \<in> set rest. iend y \<le> istart x"
    using Cons.prems(1) by auto
  have ne: "\<forall>y \<in> set rest. istart y < iend y"
    using Cons.prems(2) by auto
  have keep: "shiftEnclosing rest (iend x) delta = rest" for delta
    using below x(1) by (intro shiftEnclosing_disjoint) fastforce
  have len: "istart x \<le> length s'"
    using x by (simp add: s'_def)
  have wf': "\<forall>i \<in> set rest. istart i < iend i \<and> iend i \<le> length s'"
    using below ne len by fastforce
  have srt: "sorted_wrt (\<lambda>later prior. iend prior \<le> istart later) rest"
    using Cons.prems(1) by simp
  have "rewriteInsertions s (x # rest) rw = rewriteInsertions s' rest rw"
    by (simp add: Let_def keep s'_def)
  also have "\<dots> = referenceBuild s' 0 (rev rest) rw"
    by (rule Cons.IH [OF srt wf'])
  also have "\<dots> = referenceBuild s 0 (rev rest @ [x]) rw"
    unfolding s'_def
  proof (rule referenceBuild_last_spliced [symmetric])
    show "\<forall>a \<in> set (rev rest). istart a \<le> istart x \<and> iend a \<le> istart x"
      using below ne by fastforce
    show "0 \<le> istart x" by simp
    show "istart x \<le> length s" using x by simp
  qed
  finally show ?case by simp
qed

lemma ascending_is_reverse:
  assumes pw: "sorted_wrt (\<lambda>later prior. iend prior \<le> istart later) xs"
    and ne: "\<forall>i \<in> set xs. istart i < iend i"
    and ms: "mset ys = mset xs"
  shows "sort_key istart ys = rev xs"
proof (rule sort_key_inj_key_eq)
  show "mset ys = mset (rev xs)" using ms by simp
  have lt: "sorted_wrt (\<lambda>later prior. istart prior < istart later) xs"
    using pw ne by (induction xs) fastforce+
  have "set ys = set xs" using ms by (rule mset_eq_setD)
  moreover have "inj_on istart (set xs)"
  proof (rule inj_onI)
    fix a b assume "a \<in> set xs" "b \<in> set xs" "istart a = istart b"
    with sorted_wrt_two [OF lt, of a b] show "a = b" by auto
  qed
  ultimately show "inj_on istart (set ys)" by simp
  have "sorted_wrt (\<lambda>a b. istart a \<le> istart b) (rev xs)"
    unfolding sorted_wrt_rev
    by (rule sorted_wrt_mono_rel [OF _ lt]) simp
  then show "sorted (map istart (rev xs))"
    by (simp add: sorted_wrt_map del: rev_map)
qed

text \<open>
  C6. For every script and every set of matched ranges that the validation accepts, the
  rewriter (rightmost start first, with the adjustment of pending ends) returns the
  number of ranges and exactly the text the reference builds in one pass from left to
  right over the ranges sorted by start. The matched ranges are spans of syntax nodes
  of the script: not empty, and inside the script.
\<close>

theorem rightmost_first_equals_reference:
  assumes p: "parse script = Inr program"
    and wf: "\<forall>n \<in> set (traverseAst program matcher). nstart n < nend n \<and> nend n \<le> length script"
    and ok: "checkInterlacing
               (sortByStartDesc (map insertionOf (traverseAst program matcher))) = None"
  shows "transformScript parse script matcher rewriter
         = Inr (length (traverseAst program matcher),
                referenceRewrite script (map insertionOf (traverseAst program matcher)) rewriter)"
proof -
  define insertions where "insertions = map insertionOf (traverseAst program matcher)"
  define xs where "xs = sortByStartDesc insertions"
  have sx: "set xs = set insertions" and mx: "mset insertions = mset xs"
    by (simp_all add: xs_def sortByStartDesc_def)
  have wf': "\<forall>i \<in> set xs. istart i < iend i \<and> iend i \<le> length script"
    using wf by (simp add: sx insertions_def insertionOf_def)
  then have ne: "\<forall>i \<in> set xs. istart i < iend i" by blast
  have pw: "sorted_wrt (\<lambda>later prior. iend prior \<le> istart later) xs"
    unfolding xs_def
    by (rule check_pairwise [OF sorted_desc_start])
       (use ne ok in \<open>simp_all add: xs_def insertions_def\<close>)
  have "rewriteInsertions script xs rewriter = referenceBuild script 0 (rev xs) rewriter"
    by (rule rewriteInsertions_reference [OF pw wf'])
  also have "rev xs = sort_key istart insertions"
    by (rule ascending_is_reverse [OF pw ne mx, symmetric])
  finally have "rewriteInsertions script xs rewriter
                = referenceRewrite script insertions rewriter"
    by (simp add: referenceRewrite_def)
  then show ?thesis
    using p ok by (simp add: transformScript_def Let_def insertions_def xs_def)
qed

lemma twoCalls_matches:
  "traverseAst twoCallsProgram (matchFunctionCall ''defineComponent'') =
     [Node ''CallExpression'' [] 0 18
        [(''callee'', Node ''Identifier'' ''defineComponent'' 0 15 []),
         (''arguments'', Node [] [] 0 0 [(''0'', Node ''Identifier'' ''a'' 16 17 [])])],
      Node ''CallExpression'' [] 19 37
        [(''callee'', Node ''Identifier'' ''defineComponent'' 19 34 []),
         (''arguments'', Node [] [] 0 0 [(''0'', Node ''Identifier'' ''b'' 35 36 [])])]]"
  by (simp add: twoCallsProgram_def matchFunctionCall_def)

theorem rightmost_first_equals_reference_witness:
  "transformScript (\<lambda>script. Inr twoCallsProgram) twoCallsScript
     (matchFunctionCall ''defineComponent'') wrapCall
   = Inr (2, ''W(defineComponent(a));W(defineComponent(b))'')"
proof -
  have wf: "\<forall>n \<in> set (traverseAst twoCallsProgram (matchFunctionCall ''defineComponent'')).
              nstart n < nend n \<and> nend n \<le> length twoCallsScript"
    by (simp add: twoCalls_matches twoCallsScript_def)
  have ok: "checkInterlacing
              (sortByStartDesc
                 (map insertionOf
                    (traverseAst twoCallsProgram (matchFunctionCall ''defineComponent''))))
            = None"
    by (simp add: twoCalls_matches insertionOf_def sortByStartDesc_def)
  have "referenceRewrite twoCallsScript
          (map insertionOf (traverseAst twoCallsProgram (matchFunctionCall ''defineComponent'')))
          wrapCall
        = ''W(defineComponent(a));W(defineComponent(b))''"
    by (simp add: twoCalls_matches insertionOf_def referenceRewrite_def twoCallsScript_def
        slice_def wrapCall_def)
  with rightmost_first_equals_reference
         [where parse = "\<lambda>script. Inr twoCallsProgram" and rewriter = wrapCall, OF refl wf ok]
  show ?thesis by (simp add: twoCalls_matches)
qed

subsection \<open>The rewrite function and the fallback\<close>

lemma splice_same:
  assumes "a \<le> b"
  shows "take a s @ slice s a b @ drop b s = s"
proof -
  have "take a s @ take (b - a) (drop a s) = take (a + (b - a)) s"
    by (simp add: take_add)
  with assms have "(take a s @ take (b - a) (drop a s)) @ drop b s = s"
    by simp
  then show ?thesis by (simp add: slice_def)
qed

lemma shifted_end_not_negative:
  assumes "e \<le> iend other"
  shows "0 \<le> int (iend other)
              + (int (length (rewriter (slice script s e))) - int (length (slice script s e)))"
proof -
  have "length (slice script s e) \<le> e - s" by (simp add: slice_def)
  with assms show ?thesis by linarith
qed

lemma shiftEnclosing_zero: "shiftEnclosing xs e 0 = xs"
  by (induction xs) auto

lemma rewriteInsertions_identity:
  assumes "\<forall>i \<in> set xs. istart i \<le> iend i"
  shows "rewriteInsertions s xs (\<lambda>expr. expr) = s"
  using assms
  by (induction xs) (simp_all add: Let_def shiftEnclosing_zero splice_same)

text \<open>
  C8. With no properties and no hooks the rewrite function returns the matched text
  unchanged, whatever that text is; so rewriting any ranges (each with its start at or
  before its end) leaves the script as it was.
\<close>

theorem rewriteAsIIFE_empty_identity:
  "rewriteAsIIFE [] [] expr = expr
   \<and> ((\<forall>i \<in> set insertions. istart i \<le> iend i) \<longrightarrow>
        rewriteInsertions script insertions (rewriteAsIIFE [] []) = script)"
proof -
  have "rewriteAsIIFE [] [] = (\<lambda>expr. expr)"
    by (simp add: rewriteAsIIFE_def)
  then show ?thesis
    by (simp add: rewriteInsertions_identity)
qed

theorem rewriteAsIIFE_empty_identity_witness:
  "rewriteAsIIFE [] [] ''defineComponent(a)'' = ''defineComponent(a)''
   \<and> rewriteInsertions twoCallsScript
        [\<lparr>istart = 19, iend = 37\<rparr>, \<lparr>istart = 0, iend = 18\<rparr>] (rewriteAsIIFE [] [])
      = twoCallsScript"
  using rewriteAsIIFE_empty_identity
    [of "''defineComponent(a)''" "[\<lparr>istart = 19, iend = 37\<rparr>, \<lparr>istart = 0, iend = 18\<rparr>]"
        twoCallsScript]
  by simp

text \<open>
  C2. A script in which neither policy matches: \<open>console.log(1)\<close> has no call of
  \<open>defineComponent\<close> and no default export. The injection returns the new default
  export alone; the text of the script is not in the output.
\<close>

theorem no_match_drops_script:
  "traverseAst sideEffectProgram (matchFunctionCall ''defineComponent'') = []
   \<and> traverseAst sideEffectProgram matchExportDefault = []
   \<and> injectIntoComponent (\<lambda>script. Inr sideEffectProgram) sideEffectScript [] []
     = Inr ''export default {}''
   \<and> take (length sideEffectScript) ''export default {}'' \<noteq> sideEffectScript"
  by (simp add: injectIntoComponent_def transformScript_def sideEffectProgram_def
      sideEffectScript_def matchFunctionCall_def matchExportDefault_def sortByStartDesc_def
      rewriteAsIIFE_def)

section \<open>Properties of the module assembler\<close>

subsection \<open>The query encoder\<close>

lemma set_ownKeyOrder: "set (ownKeyOrder xs) = set xs"
  by (auto simp: ownKeyOrder_def)

lemma attrsLoop_acc: "attrsLoop attrs names (q @ r) = q @ attrsLoop attrs names r"
  by (induction names arbitrary: r) auto

lemma attrsLoop_filter:
  "attrsLoop attrs names [] =
     concat (map (\<lambda>name. ''&'' @ encodeURIComponent name
                    @ (case map_of attrs name of
                         Some v \<Rightarrow> if attrTruthy v then ''='' @ encodeURIComponent (attrText v) else []
                       | None \<Rightarrow> []))
               (filter (\<lambda>name. name \<notin> set ignoreList) names))"
proof (induction names)
  case Nil
  then show ?case by simp
next
  case (Cons name names)
  have "attrsLoop attrs names (''&'' @ x) = (''&'' @ x) @ attrsLoop attrs names []" for x
    using attrsLoop_acc [of attrs names "''&'' @ x" "[]"] by simp
  with Cons show ?case by simp
qed

text \<open>The names of an object are distinct, so looking a name up gives its own value.\<close>

lemma attrs_pairs:
  assumes d: "distinct (map fst attrs)" and sub: "set ys \<subseteq> set attrs"
  shows "map (\<lambda>name. f name (map_of attrs name)) (filter P (map fst ys))
         = map (\<lambda>kv. f (fst kv) (Some (snd kv))) (filter (\<lambda>kv. P (fst kv)) ys)"
proof -
  have own: "map_of attrs (fst kv) = Some (snd kv)" if "kv \<in> set ys" for kv
    using that sub d by (cases kv) (auto intro: map_of_is_SomeI)
  have "filter P (map fst ys) = map fst (filter (\<lambda>kv. P (fst kv)) ys)"
    by (simp add: filter_map comp_def)
  then show ?thesis
    using own by (simp add: comp_def)
qed

lemma encode_true: "encodeURIComponent ''true'' = ''true''"
  by (simp add: encodeURIComponent_def uriUnreserved_def)

lemma entry_text:
  "(if attrTruthy v then ''='' @ encodeURIComponent (attrText v) else [])
   = (case v of AttrTrue \<Rightarrow> ''=true''
      | AttrString s \<Rightarrow> if s = [] then [] else ''='' @ encodeURIComponent s)"
  by (cases v) (simp_all add: attrTruthy_def attrText_def encode_true)

lemma reserved_names:
  "set ignoreList = {''id'', ''index'', ''src'', ''type'', ''lang'', ''module'', ''scoped'', ''generic''}"
  by (simp add: ignoreList_def)

lemma attrsLoop_pairs:
  assumes "distinct (map fst attrs)"
  shows "attrsLoop attrs (map fst (ownKeyOrder attrs)) [] =
     concat (map (\<lambda>kv. ''&'' @ encodeURIComponent (fst kv)
                    @ (case snd kv of AttrTrue \<Rightarrow> ''=true''
                       | AttrString s \<Rightarrow> if s = [] then [] else ''='' @ encodeURIComponent s))
               (filter (\<lambda>kv. fst kv \<notin> {''id'', ''index'', ''src'', ''type'', ''lang'',
                                       ''module'', ''scoped'', ''generic''})
                  (ownKeyOrder attrs)))"
proof -
  have sub: "set (ownKeyOrder attrs) \<subseteq> set attrs"
    by (simp add: set_ownKeyOrder)
  show ?thesis
    unfolding attrsLoop_filter
    using attrs_pairs [OF assms sub,
      of "\<lambda>name ov. ''&'' @ encodeURIComponent name
                    @ (case ov of
                         Some v \<Rightarrow> if attrTruthy v then ''='' @ encodeURIComponent (attrText v) else []
                       | None \<Rightarrow> [])"
         "\<lambda>name. name \<notin> set ignoreList"]
    by (simp add: entry_text reserved_names)
qed

lemma encodeURIComponent_chars:
  "encodeURIComponent text =
     concat (map (\<lambda>c. if c \<in> set ''ABCDEFGHIJKLMNOPQRSTUVWXYZabcdefghijklmnopqrstuvwxyz''
                           \<or> c \<in> set ''0123456789'' \<or> c \<in> set ''-_.!~*()'' \<or> c = CHR 0x27
                        then [c]
                        else [CHR ''%'', ''0123456789ABCDEF'' ! (of_char c div 16 mod 16),
                              ''0123456789ABCDEF'' ! (of_char c mod 16)]) text)"
  unfolding encodeURIComponent_def uriUnreserved_def hexUpper_def
  by (intro arg_cong [where f = concat] map_cong refl) auto

text \<open>
  C7. For every attribute map (its names distinct, as the names of an object are), the
  query is made of the attributes whose name is not one of \<open>id\<close>, \<open>index\<close>,
  \<open>src\<close>, \<open>type\<close>, \<open>lang\<close>, \<open>module\<close>, \<open>scoped\<close>, \<open>generic\<close>, each
  written \<open>&name\<close> when its value is the empty string and \<open>&name=value\<close>
  otherwise (\<open>&name=true\<close> for an attribute without a value), with name and value
  percent-encoded, followed by the language parameter; an attribute with a reserved name
  adds nothing to that list. Percent-encoding keeps the letters, the digits and
  \<open>- _ . ! ~ * ' ( )\<close> and writes every other character as \<open>%\<close> and its two
  upper-case hexadecimal digits. The attributes \<open>{ id: "x", foo: "bar" }\<close> with the
  fallback \<open>css\<close> and the fallback not forced give \<open>&foo=bar&lang.css\<close>; a name
  with a space, a value with \<open>&\<close>, an empty value and a valueless attribute give
  \<open>&a%20b=x%26y&k&v=true&lang.css\<close>; all eight reserved names together leave
  only \<open>&foo=bar\<close> and the declared language.
\<close>

theorem attrsToQuery_reserved_dropped:
  assumes "distinct (map fst attrs)"
  shows "attrsToQuery attrs langFallback forceLangFallback =
           concat (map (\<lambda>kv. ''&'' @ encodeURIComponent (fst kv)
                          @ (case snd kv of AttrTrue \<Rightarrow> ''=true''
                             | AttrString s \<Rightarrow> if s = [] then [] else ''='' @ encodeURIComponent s))
                     (filter (\<lambda>kv. fst kv \<notin> {''id'', ''index'', ''src'', ''type'', ''lang'',
                                             ''module'', ''scoped'', ''generic''})
                        (ownKeyOrder attrs)))
           @ (if (case langFallback of None \<Rightarrow> False | Some l \<Rightarrow> l \<noteq> [])
                 \<or> (case map_of attrs ''lang'' of
                       None \<Rightarrow> False | Some AttrTrue \<Rightarrow> True | Some (AttrString s) \<Rightarrow> s \<noteq> [])
              then ''&lang.''
                   @ (case map_of attrs ''lang'' of
                        Some v \<Rightarrow>
                          if forceLangFallback
                          then (case langFallback of None \<Rightarrow> ''undefined'' | Some l \<Rightarrow> l)
                          else (case v of AttrTrue \<Rightarrow> ''true'' | AttrString s \<Rightarrow> s)
                      | None \<Rightarrow> (case langFallback of None \<Rightarrow> ''undefined'' | Some l \<Rightarrow> l))
              else [])
         \<and> encodeURIComponent text =
             concat (map (\<lambda>c. if c \<in> set ''ABCDEFGHIJKLMNOPQRSTUVWXYZabcdefghijklmnopqrstuvwxyz''
                                   \<or> c \<in> set ''0123456789'' \<or> c \<in> set ''-_.!~*()''
                                   \<or> c = CHR 0x27
                                then [c]
                                else [CHR ''%'', ''0123456789ABCDEF'' ! (of_char c div 16 mod 16),
                                      ''0123456789ABCDEF'' ! (of_char c mod 16)]) text)
         \<and> attrsToQuery [(''id'', AttrString ''x''), (''foo'', AttrString ''bar'')] (Some ''css'') False
           = ''&foo=bar&lang.css''
         \<and> attrsToQuery [(''a b'', AttrString ''x&y''), (''k'', AttrString []), (''v'', AttrTrue)]
             (Some ''css'') False
           = ''&a%20b=x%26y&k&v=true&lang.css''
         \<and> attrsToQuery
             [(''id'', AttrString ''x''), (''index'', AttrString ''1''),
              (''src'', AttrString ''./a.css''), (''type'', AttrString ''t''),
              (''lang'', AttrString ''scss''), (''module'', AttrTrue), (''scoped'', AttrTrue),
              (''generic'', AttrString ''T''), (''foo'', AttrString ''bar'')]
             (Some ''css'') False
           = ''&foo=bar&lang.scss''"
proof (intro conjI)
  show "attrsToQuery attrs langFallback forceLangFallback =
           concat (map (\<lambda>kv. ''&'' @ encodeURIComponent (fst kv)
                          @ (case snd kv of AttrTrue \<Rightarrow> ''=true''
                             | AttrString s \<Rightarrow> if s = [] then [] else ''='' @ encodeURIComponent s))
                     (filter (\<lambda>kv. fst kv \<notin> {''id'', ''index'', ''src'', ''type'', ''lang'',
                                             ''module'', ''scoped'', ''generic''})
                        (ownKeyOrder attrs)))
           @ (if (case langFallback of None \<Rightarrow> False | Some l \<Rightarrow> l \<noteq> [])
                 \<or> (case map_of attrs ''lang'' of
                       None \<Rightarrow> False | Some AttrTrue \<Rightarrow> True | Some (AttrString s) \<Rightarrow> s \<noteq> [])
              then ''&lang.''
                   @ (case map_of attrs ''lang'' of
                        Some v \<Rightarrow>
                          if forceLangFallback
                          then (case langFallback of None \<Rightarrow> ''undefined'' | Some l \<Rightarrow> l)
                          else (case v of AttrTrue \<Rightarrow> ''true'' | AttrString s \<Rightarrow> s)
                      | None \<Rightarrow> (case langFallback of None \<Rightarrow> ''undefined'' | Some l \<Rightarrow> l))
              else [])"
    unfolding attrsToQuery_def Let_def attrsLoop_pairs [OF assms]
    by (simp add: truthy_def interpolate_def attrTruthy_def attrText_def
        split: option.splits attrValue.splits)
  show "encodeURIComponent text =
             concat (map (\<lambda>c. if c \<in> set ''ABCDEFGHIJKLMNOPQRSTUVWXYZabcdefghijklmnopqrstuvwxyz''
                                   \<or> c \<in> set ''0123456789'' \<or> c \<in> set ''-_.!~*()''
                                   \<or> c = CHR 0x27
                                then [c]
                                else [CHR ''%'', ''0123456789ABCDEF'' ! (of_char c div 16 mod 16),
                                      ''0123456789ABCDEF'' ! (of_char c mod 16)]) text)"
    by (rule encodeURIComponent_chars)
  show "attrsToQuery [(''id'', AttrString ''x''), (''foo'', AttrString ''bar'')] (Some ''css'') False
           = ''&foo=bar&lang.css''"
    by (simp add: attrsToQuery_def ownKeyOrder_def isArrayIndex_def isDigit_def ignoreList_def
        encodeURIComponent_def uriUnreserved_def attrTruthy_def attrText_def truthy_def
        interpolate_def)
  show "attrsToQuery [(''a b'', AttrString ''x&y''), (''k'', AttrString []), (''v'', AttrTrue)]
             (Some ''css'') False
           = ''&a%20b=x%26y&k&v=true&lang.css''"
    by (simp add: attrsToQuery_def ownKeyOrder_def isArrayIndex_def isDigit_def ignoreList_def
        encodeURIComponent_def uriUnreserved_def hexUpper_def attrTruthy_def attrText_def
        truthy_def interpolate_def)
  show "attrsToQuery
             [(''id'', AttrString ''x''), (''index'', AttrString ''1''),
              (''src'', AttrString ''./a.css''), (''type'', AttrString ''t''),
              (''lang'', AttrString ''scss''), (''module'', AttrTrue), (''scoped'', AttrTrue),
              (''generic'', AttrString ''T''), (''foo'', AttrString ''bar'')]
             (Some ''css'') False
           = ''&foo=bar&lang.scss''"
    by (simp add: attrsToQuery_def ownKeyOrder_def isArrayIndex_def isDigit_def ignoreList_def
        encodeURIComponent_def uriUnreserved_def attrTruthy_def attrText_def truthy_def
        interpolate_def)
qed

lemma numbered_order:
  "ownKeyOrder [(''b'', AttrString ''1''), (''10'', AttrString ''x''), (''2'', AttrString ''y''),
                (''a b'', AttrString ''x&y''), (''k'', AttrString []), (''v'', AttrTrue),
                (''type'', AttrString ''t'')]
   = [(''2'', AttrString ''y''), (''10'', AttrString ''x''), (''b'', AttrString ''1''),
      (''a b'', AttrString ''x&y''), (''k'', AttrString []), (''v'', AttrTrue),
      (''type'', AttrString ''t'')]"
  by (simp add: ownKeyOrder_def isArrayIndex_def isDigit_def readDecimal_def)

theorem attrsToQuery_reserved_dropped_witness:
  "distinct (map fst [(''b'', AttrString ''1''), (''10'', AttrString ''x''), (''2'', AttrString ''y''),
                (''a b'', AttrString ''x&y''), (''k'', AttrString []), (''v'', AttrTrue),
                (''type'', AttrString ''t'')])
   \<and> attrsToQuery [(''b'', AttrString ''1''), (''10'', AttrString ''x''), (''2'', AttrString ''y''),
                (''a b'', AttrString ''x&y''), (''k'', AttrString []), (''v'', AttrTrue),
                (''type'', AttrString ''t'')] (Some ''css'') False
       = ''&2=y&10=x&b=1&a%20b=x%26y&k&v=true&lang.css''"
proof -
  have d: "distinct (map fst [(''b'', AttrString ''1''), (''10'', AttrString ''x''),
                (''2'', AttrString ''y''), (''a b'', AttrString ''x&y''), (''k'', AttrString []),
                (''v'', AttrTrue), (''type'', AttrString ''t'')])"
    by simp
  have "attrsToQuery [(''b'', AttrString ''1''), (''10'', AttrString ''x''), (''2'', AttrString ''y''),
                (''a b'', AttrString ''x&y''), (''k'', AttrString []), (''v'', AttrTrue),
                (''type'', AttrString ''t'')] (Some ''css'') False
       = ''&2=y&10=x&b=1&a%20b=x%26y&k&v=true&lang.css''"
    unfolding attrsToQuery_reserved_dropped [OF d, THEN conjunct1] numbered_order
    by (simp add: encodeURIComponent_def uriUnreserved_def hexUpper_def)
  with d show ?thesis by (intro conjI)
qed

subsection \<open>Style requests\<close>

text \<open>
  C4, as the code has it. For every style region (its attribute names distinct), the
  request is the path, then \<open>?vue&type=style\<close> and the index, then the src marker,
  then the custom-element inline marker, then the scoped marker, then the attributes
  that are not reserved in the order \<open>for ... in\<close> enumerates them (the names that
  are array indices first, in ascending numeric order, then the other names in
  declaration order), and the language parameter last.
\<close>

theorem styleRequest_parameter_order:
  assumes "distinct (map fst (block_attrs style))"
  shows "styleRequestOf descriptor asCustomElement i style =
           orElse (block_src style) (desc_filename descriptor)
           @ ''?vue&type=style&index='' @ showNat i
           @ (if truthy (block_src style)
              then ''&src='' @ (if block_scoped style then desc_id descriptor else ''true'')
              else [])
           @ (if asCustomElement then ''&inline'' else [])
           @ (if block_scoped style then ''&scoped='' @ desc_id descriptor else [])
           @ concat (map (\<lambda>kv. ''&'' @ encodeURIComponent (fst kv)
                            @ (case snd kv of AttrTrue \<Rightarrow> ''=true''
                               | AttrString s \<Rightarrow>
                                   if s = [] then [] else ''='' @ encodeURIComponent s))
                       (filter (\<lambda>kv. fst kv \<notin> {''id'', ''index'', ''src'', ''type'', ''lang'',
                                               ''module'', ''scoped'', ''generic''})
                          (sort_key (\<lambda>kv. readDecimal (fst kv))
                             (filter (\<lambda>kv. isArrayIndex (fst kv)) (block_attrs style))
                           @ filter (\<lambda>kv. \<not> isArrayIndex (fst kv)) (block_attrs style))))
           @ ''&lang.''
           @ (case map_of (block_attrs style) ''lang'' of
                Some v \<Rightarrow> attrText v | None \<Rightarrow> ''css'')"
proof -
  have q: "attrsToQuery (block_attrs style) (Some ''css'') False =
           concat (map (\<lambda>kv. ''&'' @ encodeURIComponent (fst kv)
                            @ (case snd kv of AttrTrue \<Rightarrow> ''=true''
                               | AttrString s \<Rightarrow>
                                   if s = [] then [] else ''='' @ encodeURIComponent s))
                       (filter (\<lambda>kv. fst kv \<notin> {''id'', ''index'', ''src'', ''type'', ''lang'',
                                               ''module'', ''scoped'', ''generic''})
                          (ownKeyOrder (block_attrs style))))
           @ ''&lang.''
           @ (case map_of (block_attrs style) ''lang'' of
                Some v \<Rightarrow> attrText v | None \<Rightarrow> ''css'')"
    unfolding attrsToQuery_def Let_def attrsLoop_pairs [OF assms]
    by (simp add: truthy_def interpolate_def split: option.splits)
  show ?thesis
    unfolding styleRequestOf_def Let_def q ownKeyOrder_def by simp
qed

lemma numbered_style_order:
  "sort_key (\<lambda>kv. readDecimal (fst kv))
     (filter (\<lambda>kv. isArrayIndex (fst kv)) (block_attrs numberedAttrsStyle))
   @ filter (\<lambda>kv. \<not> isArrayIndex (fst kv)) (block_attrs numberedAttrsStyle)
   = [(''2'', AttrString ''y''), (''10'', AttrString ''x''), (''src'', AttrString ''./a.css''),
      (''scoped'', AttrTrue), (''b'', AttrString ''1'')]"
  by (simp add: numberedAttrsStyle_def isArrayIndex_def isDigit_def readDecimal_def)

theorem styleRequest_parameter_order_witness:
  "distinct (map fst (block_attrs numberedAttrsStyle))
   \<and> styleRequestOf exampleDescriptor True 0 numberedAttrsStyle
       = ''./a.css?vue&type=style&index=0&src=7ba5bd90&inline&scoped=7ba5bd90&2=y&10=x&b=1&lang.css''"
proof -
  have d: "distinct (map fst (block_attrs numberedAttrsStyle))"
    by (simp add: numberedAttrsStyle_def)
  have "styleRequestOf exampleDescriptor True 0 numberedAttrsStyle
       = ''./a.css?vue&type=style&index=0&src=7ba5bd90&inline&scoped=7ba5bd90&2=y&10=x&b=1&lang.css''"
    unfolding styleRequest_parameter_order [OF d] numbered_style_order
    by (simp add: numberedAttrsStyle_def exampleDescriptor_def orElse_def truthy_def
        encodeURIComponent_def uriUnreserved_def showNat.simps)
  with d show ?thesis by (intro conjI)
qed

text \<open>
  A scoped style under custom-element mode: the inline marker comes before the scoped
  marker, not after it. A style whose attributes are declared \<open>b\<close>, \<open>10\<close>,
  \<open>2\<close>: they come out as \<open>2\<close>, \<open>10\<close>, \<open>b\<close>, not in declaration order.
\<close>

theorem styleRequest_scoped_before_inline_counterexample:
  "styleRequestOf exampleDescriptor True 0 exampleStyle
     = ''App.vue?vue&type=style&index=0&inline&scoped=7ba5bd90&lang.css''
   \<and> styleRequestOf exampleDescriptor True 0 exampleStyle
     \<noteq> ''App.vue?vue&type=style&index=0&scoped=7ba5bd90&inline&lang.css''
   \<and> styleRequestOf exampleDescriptor False 0 numberedAttrsStyle
     = ''./a.css?vue&type=style&index=0&src=7ba5bd90&scoped=7ba5bd90&2=y&10=x&b=1&lang.css''
   \<and> styleRequestOf exampleDescriptor False 0 numberedAttrsStyle
     \<noteq> ''./a.css?vue&type=style&index=0&src=7ba5bd90&scoped=7ba5bd90&b=1&10=x&2=y&lang.css''"
  by (simp add: styleRequestOf_def attrsToQuery_def ownKeyOrder_def isArrayIndex_def isDigit_def
      readDecimal_def exampleStyle_def numberedAttrsStyle_def exampleDescriptor_def
      orElse_def truthy_def ignoreList_def showNat.simps interpolate_def
      encodeURIComponent_def uriUnreserved_def attrTruthy_def attrText_def)

subsection \<open>CSS modules under custom-element mode\<close>

lemma genStyleLoop_module_error:
  assumes "list_ex (\<lambda>style. moduleTruthy (block_module style)) styles"
  shows "genStyleLoop descriptor True i styles stylesCode cssModulesMap
         = Inl StyleModuleInCustomElement"
  using assms
proof (induction styles arbitrary: i stylesCode cssModulesMap)
  case Nil
  then show ?case by simp
next
  case (Cons style styles)
  show ?case
  proof (cases "moduleTruthy (block_module style)")
    case True
    then show ?thesis by (simp add: Let_def)
  next
    case False
    with Cons.prems have "list_ex (\<lambda>style. moduleTruthy (block_module style)) styles"
      by simp
    from Cons.IH [OF this] False show ?thesis by (simp add: Let_def)
  qed
qed

lemma genStyleCode_module_error:
  assumes "list_ex (\<lambda>style. moduleTruthy (block_module style)) (desc_styles descriptor)"
  shows "genStyleCode descriptor True attachedProps = Inl StyleModuleInCustomElement"
proof -
  from assms have ne: "desc_styles descriptor \<noteq> []" by auto
  show ?thesis
    unfolding genStyleCode_def
    by (simp add: ne genStyleLoop_module_error [OF assms])
qed

text \<open>
  C9. When the descriptor has a style region whose \<open>module\<close> is set, the style code
  under custom-element mode is the configuration error, with no code; compiling raises
  that error when the descriptor has no parse errors, and never returns a module.
\<close>

theorem custom_element_css_module_is_fatal:
  assumes "ext_createDescriptor ext filename code options = (descriptor, errors)"
    and "\<exists>style \<in> set (desc_styles descriptor). moduleTruthy (block_module style)"
  shows "genStyleCode descriptor True attachedProps = Inl StyleModuleInCustomElement
         \<and> (errors = [] \<longrightarrow>
              transformMain ext code filename options ssr True = Inl StyleModuleInCustomElement)
         \<and> (\<forall>out. transformMain ext code filename options ssr True \<noteq> Inr (Some out))"
proof -
  from assms(2) have ex: "list_ex (\<lambda>style. moduleTruthy (block_module style)) (desc_styles descriptor)"
    by (simp add: list_ex_iff)
  have g: "genStyleCode descriptor True props = Inl StyleModuleInCustomElement" for props
    by (rule genStyleCode_module_error [OF ex])
  have t: "transformMain ext code filename options ssr True =
           (if errors \<noteq> [] then Inr None else Inl StyleModuleInCustomElement)"
    unfolding transformMain_def Let_def
    by (simp add: assms(1) g split: prod.splits)
  show ?thesis
    using g t by simp
qed

theorem custom_element_css_module_is_fatal_witness:
  "ext_createDescriptor (exampleExternals moduleStyleDescriptor) ''App.vue'' [] exampleOptions
     = (moduleStyleDescriptor, [])
   \<and> (\<exists>style \<in> set (desc_styles moduleStyleDescriptor). moduleTruthy (block_module style))
   \<and> genStyleCode moduleStyleDescriptor True [] = Inl StyleModuleInCustomElement
   \<and> transformMain (exampleExternals moduleStyleDescriptor) [] ''App.vue'' exampleOptions
        False True = Inl StyleModuleInCustomElement"
proof -
  have d: "ext_createDescriptor (exampleExternals moduleStyleDescriptor) ''App.vue'' []
             exampleOptions = (moduleStyleDescriptor, [])"
    by (simp add: exampleExternals_def)
  have m: "\<exists>style \<in> set (desc_styles moduleStyleDescriptor). moduleTruthy (block_module style)"
    by (simp add: moduleStyleDescriptor_def exampleDescriptor_def moduleTruthy_def)
  from custom_element_css_module_is_fatal [OF d m, of "[]" False] d m
  show ?thesis by simp
qed

subsection \<open>Source map composition\<close>

lemma countLineBreaks_LF: "countLineBreaks s = length (filter (\<lambda>c. c = CHR 0x0A) s)"
proof (induction s rule: countLineBreaks.induct)
  case 1
  then show ?case by simp
next
  case (2 c cs)
  then show ?case by (cases cs) auto
qed

lemma foldl_addShifted:
  "foldl (addShiftedMapping offset) gen ms =
     gen @ map (\<lambda>m. m\<lparr>generatedLine := generatedLine m + offset\<rparr>)
             (filter (\<lambda>m. source m \<noteq> None) ms)"
proof (induction ms arbitrary: gen)
  case Nil
  then show ?case by simp
next
  case (Cons m ms)
  show ?case
  proof (cases "source m")
    case None
    then show ?thesis using Cons [of gen] by (simp add: addShiftedMapping_def)
  next
    case (Some s)
    then show ?thesis
      using Cons [of "addShiftedMapping offset gen m"] by (simp add: addShiftedMapping_def)
  qed
qed

text \<open>
  C3, as the code has it. With source maps on and both maps present, the composed map
  holds the mappings of the script map, then every mapping of the template map that has
  a source, with its generated line increased by the number of line breaks of the script
  text plus one and nothing else changed; the mappings without a source are dropped.
  The number of line breaks is the number of line feeds in the text.
\<close>

theorem template_mappings_shifted:
  "resolveSourceMap True (Some scriptMap) (Some templateMap) scriptCode =
     Some \<lparr>mappings =
             mappings scriptMap
             @ map (\<lambda>m. m\<lparr>generatedLine := generatedLine m + (countLineBreaks scriptCode + 1)\<rparr>)
                 (filter (\<lambda>m. source m \<noteq> None) (mappings templateMap)),
           sourcesContent = sourcesContent templateMap\<rparr>
   \<and> countLineBreaks scriptCode = length (filter (\<lambda>c. c = CHR 0x0A) scriptCode)"
  by (simp add: resolveSourceMap_def foldl_addShifted countLineBreaks_LF)

text \<open>
  A script text with one line break (N = 1) and a template mapping at generated line 1:
  the composed map has it at line 3, and has no mapping at line N + 1 = 2.
\<close>

theorem template_mapping_line_counterexample:
  "countLineBreaks (''a'' @ [CHR 0x0A] @ ''b'') = 1
   \<and> resolveSourceMap True (Some \<lparr>mappings = [], sourcesContent = []\<rparr>)
         (Some exampleTemplateMap) (''a'' @ [CHR 0x0A] @ ''b'')
       = Some \<lparr>mappings =
                 [\<lparr>generatedLine = 3, generatedColumn = 0, source = Some ''App.vue'',
                   originalLine = 3, originalColumn = 2\<rparr>],
               sourcesContent = [''<template/>'']\<rparr>
   \<and> \<lparr>generatedLine = 1 + 1, generatedColumn = 0, source = Some ''App.vue'',
        originalLine = 3, originalColumn = 2\<rparr>
       \<notin> set [\<lparr>generatedLine = 3, generatedColumn = 0, source = Some ''App.vue'',
                   originalLine = 3, originalColumn = 2\<rparr>]"
  by (simp add: resolveSourceMap_def addShiftedMapping_def exampleTemplateMap_def)

subsection \<open>The language tag of the result\<close>

lemma orElse_chain:
  "orElse a (orElse b d) =
     (if truthy a then interpolate a else if truthy b then interpolate b else d)"
  by (simp add: orElse_def truthy_def interpolate_def split: option.splits)

lemma needsLowering_setup_first:
  "needsLowering descriptor =
     ((if truthy (langOf (desc_scriptSetup descriptor))
       then endsWithTs (interpolate (langOf (desc_scriptSetup descriptor)))
       else truthy (langOf (desc_script descriptor))
            \<and> endsWithTs (interpolate (langOf (desc_script descriptor))))
      \<and> \<not> truthy (srcOf (desc_script descriptor)))"
  by (simp add: needsLowering_def Let_def)

text \<open>
  C10. Whenever compiling returns a module, its language tag is the tag of the plain
  script when that is declared (a non-empty string, as \<open>||\<close> reads it), otherwise the
  tag of the setup script when that is declared, otherwise \<open>js\<close>. The lowering decides
  the other way round: the returned code is what the lowering gives exactly when the
  tag of the setup script, if declared, ends in \<open>ts\<close> or \<open>tsx\<close> (the tag of the plain
  script is read only when the setup script declares none) and the plain script has
  no external source.
\<close>

theorem meta_lang_prefers_script:
  assumes run: "transformMain ext code filename options ssr asCustomElement = Inr (Some out)"
    and desc: "ext_createDescriptor ext filename code options = (descriptor, errors)"
  shows "res_lang out =
           (if truthy (langOf (desc_script descriptor))
            then interpolate (langOf (desc_script descriptor))
            else if truthy (langOf (desc_scriptSetup descriptor))
            then interpolate (langOf (desc_scriptSetup descriptor))
            else ''js'')
         \<and> (\<exists>assembled m.
              res_code out =
                (if needsLowering descriptor
                 then fst (ext_transformWithEsbuild ext assembled filename
                             (opt_sourceMap options) m)
                 else assembled))
         \<and> needsLowering descriptor =
             ((if truthy (langOf (desc_scriptSetup descriptor))
               then endsWithTs (interpolate (langOf (desc_scriptSetup descriptor)))
               else truthy (langOf (desc_script descriptor))
                    \<and> endsWithTs (interpolate (langOf (desc_script descriptor))))
              \<and> \<not> truthy (srcOf (desc_script descriptor)))"
proof -
  have noerr: "errors = []"
    using run desc unfolding transformMain_def Let_def by (auto split: if_splits)
  from run obtain assembled m where
    out: "out = \<lparr>res_code =
                   (if needsLowering descriptor
                    then fst (ext_transformWithEsbuild ext assembled filename
                                (opt_sourceMap options) m)
                    else assembled),
                 res_map = res_map out,
                 res_lang = orElse (langOf (desc_script descriptor))
                              (orElse (langOf (desc_scriptSetup descriptor)) ''js'')\<rparr>"
    unfolding transformMain_def Let_def
    by (cases "needsLowering descriptor")
       (auto simp: desc noerr case_prod_beta split: sum.splits)
  have "res_lang out = orElse (langOf (desc_script descriptor))
                              (orElse (langOf (desc_scriptSetup descriptor)) ''js'')"
    by (subst out) simp
  moreover have "res_code out =
                   (if needsLowering descriptor
                    then fst (ext_transformWithEsbuild ext assembled filename
                                (opt_sourceMap options) m)
                    else assembled)"
    by (subst out) simp
  ultimately show ?thesis
    unfolding orElse_chain using needsLowering_setup_first [of descriptor] by blast
qed

lemma twoScripts_run:
  "transformMain (exampleExternals twoScriptsDescriptor) [] ''App.vue'' exampleOptions False False
     = Inr (Some \<lparr>res_code = ''/* lowered */'' @ [CHR 0x0A, CHR 0x0A, CHR 0x0A]
                               @ ''export default {}'',
                   res_map = None, res_lang = ''js''\<rparr>)"
  by (simp add: transformMain_def exampleExternals_def twoScriptsDescriptor_def
      exampleOptions_def scriptBlock_def genScriptCode_def genStyleCode_def
      genCustomBlockCode_def resolveSourceMap_def injectIntoComponent_def
      transformScript_def exportDefaultProgram_def matchFunctionCall_def
      matchExportDefault_def insertionOf_def sortByStartDesc_def rewriteAsIIFE_def
      slice_def needsLowering_def langOf_def srcOf_def truthy_def interpolate_def
      endsWithTs_def orElse_def Let_def)

theorem meta_lang_prefers_script_witness:
  "transformMain (exampleExternals twoScriptsDescriptor) [] ''App.vue'' exampleOptions False False
     = Inr (Some \<lparr>res_code = ''/* lowered */'' @ [CHR 0x0A, CHR 0x0A, CHR 0x0A]
                               @ ''export default {}'',
                   res_map = None, res_lang = ''js''\<rparr>)
   \<and> ext_createDescriptor (exampleExternals twoScriptsDescriptor) ''App.vue'' [] exampleOptions
       = (twoScriptsDescriptor, [])
   \<and> langOf (desc_script twoScriptsDescriptor) = Some ''js''
   \<and> langOf (desc_scriptSetup twoScriptsDescriptor) = Some ''ts''
   \<and> res_lang \<lparr>res_code = ''/* lowered */'' @ [CHR 0x0A, CHR 0x0A, CHR 0x0A]
                               @ ''export default {}'',
                 res_map = None, res_lang = ''js''\<rparr> = ''js''
   \<and> needsLowering twoScriptsDescriptor"
proof -
  have d: "ext_createDescriptor (exampleExternals twoScriptsDescriptor) ''App.vue'' []
             exampleOptions = (twoScriptsDescriptor, [])"
    by (simp add: exampleExternals_def)
  have l: "langOf (desc_script twoScriptsDescriptor) = Some ''js''"
          "langOf (desc_scriptSetup twoScriptsDescriptor) = Some ''ts''"
    by (simp_all add: twoScriptsDescriptor_def scriptBlock_def langOf_def)
  have s: "srcOf (desc_script twoScriptsDescriptor) = None"
    by (simp add: twoScriptsDescriptor_def scriptBlock_def srcOf_def)
  from meta_lang_prefers_script [OF twoScripts_run d]
  have "needsLowering twoScriptsDescriptor"
    by (simp add: l s truthy_def interpolate_def endsWithTs_def)
  with twoScripts_run d l show ?thesis by simp
qed

end
